theory Spec2Isabelle
  imports Main "HOL-Library.Word" "HOL-Library.Sublist"
begin

section \<open>Status values\<close>

text \<open>
  The functions of \<^verbatim>\<open>onnx_ctx_model_helper.cc\<close> return a \<^verbatim>\<open>Status\<close>: either OK or an
  error with a category and a message. The file names two categories,
  \<^verbatim>\<open>FAIL\<close> (line 276) and \<^verbatim>\<open>INVALID_GRAPH\<close> (lines 112, 121, 127, 192).
\<close>

datatype status_category = FAIL | INVALID_GRAPH

datatype status = OK | Error status_category string

definition IsOK :: "status \<Rightarrow> bool" where
  "IsOK st = (st = OK)"

fun ErrorMessage :: "status \<Rightarrow> string" where
  "ErrorMessage OK = []"
| "ErrorMessage (Error c m) = m"

text \<open>
  Modelled from the spec: the macros \<^verbatim>\<open>ORT_RETURN_IF\<close> and \<^verbatim>\<open>ORT_RETURN_IF_NOT\<close> are
  defined outside this file. They take a condition and the pieces of a message and no
  category; the spec (section 7) lists the conditions they guard (structure error, empty
  file, read error, unknown tensor) as error kinds of their own, apart from the
  "invalid cached graph" classification. The model gives the status they return the
  generic category \<^verbatim>\<open>FAIL\<close>, the one \<^verbatim>\<open>ORT_MAKE_STATUS(ONNXRUNTIME, FAIL, ...)\<close> names at
  line 276, with the concatenated message.
\<close>

definition ORT_RETURN_IF_status :: "string \<Rightarrow> status" where
  "ORT_RETURN_IF_status msg = Error FAIL msg"

section \<open>Nodes and their attributes\<close>

text \<open>
  A node attribute is an int64 or a string (the payload bytes are stored in a string
  attribute as well). \<^verbatim>\<open>AddAttribute\<close> stores under the attribute's name.
\<close>

datatype attr_value = AttrInt "64 word" | AttrString string

record node_arg =
  ArgName :: string
  ElemType :: int
  Dims :: "nat list"

record node =
  Name :: string
  OpType :: string
  Description :: string
  InputDefs :: "node_arg list"
  OutputDefs :: "node_arg list"
  Domain :: string
  Attributes :: "string \<rightharpoonup> attr_value"

definition AddAttribute :: "string \<Rightarrow> attr_value \<Rightarrow> node \<Rightarrow> node" where
  "AddAttribute key v n = n\<lparr>Attributes := (Attributes n)(key \<mapsto> v)\<rparr>"

text \<open>
  Modelled from the spec: the names of the operator, of its attributes, of the provider
  and of the domain are constants declared outside this file (its header and the
  provider's constants). The spec names the operator's attributes by their roles
  (section 3); the values below are the header's spellings. The proofs use that the
  names differ from one another.
\<close>

definition EPCONTEXT_OP :: string where "EPCONTEXT_OP = ''EPContext''"
definition MAIN_CONTEXT :: string where "MAIN_CONTEXT = ''main_context''"
definition EMBED_MODE :: string where "EMBED_MODE = ''embed_mode''"
definition EP_CACHE_CONTEXT :: string where "EP_CACHE_CONTEXT = ''ep_cache_context''"
definition EP_SDK_VER :: string where "EP_SDK_VER = ''ep_sdk_version''"
definition PARTITION_NAME :: string where "PARTITION_NAME = ''partition_name''"
definition SOURCE :: string where "SOURCE = ''source''"
definition MAX_SIZE :: string where "MAX_SIZE = ''max_size''"
definition kQnnExecutionProvider :: string where
  "kQnnExecutionProvider = ''QNNExecutionProvider''"
definition kMSDomain :: string where "kMSDomain = ''com.microsoft''"

text \<open>
  Modelled from the spec: \<^verbatim>\<open>NodeAttrHelper\<close> is declared outside this file. \<^verbatim>\<open>Get(key, def)\<close>
  returns the stored value of the named attribute and the default \<open>def\<close> when the node
  has no attribute of that name (spec 4.3: "sizing attribute (0 if absent)"). An
  attribute stored with the other type reads as that type's empty value (0, the empty
  string), as an unset field of the attribute does.
\<close>

definition Get_int64 :: "node \<Rightarrow> string \<Rightarrow> 64 word \<Rightarrow> 64 word" where
  "Get_int64 n key def =
     (case Attributes n key of
        None \<Rightarrow> def
      | Some (AttrInt v) \<Rightarrow> v
      | Some (AttrString s) \<Rightarrow> 0)"

definition Get_string :: "node \<Rightarrow> string \<Rightarrow> string \<Rightarrow> string" where
  "Get_string n key def =
     (case Attributes n key of
        None \<Rightarrow> def
      | Some (AttrInt v) \<Rightarrow> []
      | Some (AttrString s) \<Rightarrow> s)"

definition Get_bool :: "node \<Rightarrow> string \<Rightarrow> bool \<Rightarrow> bool" where
  "Get_bool n key def =
     (case Attributes n key of
        None \<Rightarrow> def
      | Some (AttrInt v) \<Rightarrow> v \<noteq> 0
      | Some (AttrString s) \<Rightarrow> False)"

text \<open>
  Modelled from the spec: \<^verbatim>\<open>qnn::utils::GetLowercaseString\<close> is declared outside this file;
  it lowercases every character of the string (the letters A to Z of ASCII).
\<close>

definition tolower :: "char \<Rightarrow> char" where
  "tolower c =
     (case map_of (zip ''ABCDEFGHIJKLMNOPQRSTUVWXYZ'' ''abcdefghijklmnopqrstuvwxyz'') c of
        None \<Rightarrow> c
      | Some l \<Rightarrow> l)"

definition GetLowercaseString :: "string \<Rightarrow> string" where
  "GetLowercaseString s = map tolower s"

text \<open>
  A \<^verbatim>\<open>GraphViewer\<close> is read through \<^verbatim>\<open>Nodes()\<close> and \<^verbatim>\<open>NumberOfNodes()\<close> only: it is the list
  of its nodes, and the number of its nodes is the length of the list.
\<close>

type_synonym graph_viewer = "node list"

section \<open>Detection of a context-cache model\<close>

text \<open>Lines 18 to 32: the loop returns at the first node that matches.\<close>

fun GraphHasEpContextNode :: "graph_viewer \<Rightarrow> bool" where
  "GraphHasEpContextNode [] = False"
| "GraphHasEpContextNode (n # ns) =
     (if EPCONTEXT_OP = OpType n then
        (let cache_source = GetLowercaseString (Get_string n SOURCE [])
         in if cache_source = ''qnnexecutionprovider'' \<or> cache_source = ''qnn''
            then True
            else GraphHasEpContextNode ns)
      else GraphHasEpContextNode ns)"

record fused_node_and_graph =
  fused_node :: node
  filtered_graph :: graph_viewer

fun IsFusedGraphHasCtxNode :: "fused_node_and_graph list \<Rightarrow> bool" where
  "IsFusedGraphHasCtxNode [] = False"
| "IsFusedGraphHasCtxNode (f # fs) =
     (if GraphHasEpContextNode (filtered_graph f) then True else IsFusedGraphHasCtxNode fs)"

definition mk_node :: "string \<Rightarrow> string \<Rightarrow> (string \<rightharpoonup> attr_value) \<Rightarrow> node" where
  "mk_node nm op attrs =
     \<lparr>Name = nm, OpType = op, Description = [], InputDefs = [], OutputDefs = [],
      Domain = kMSDomain, Attributes = attrs\<rparr>"

section \<open>Strings and paths\<close>

text \<open>
  The string searches of \<^verbatim>\<open>std::string\<close> the file uses; \<open>None\<close> is \<^verbatim>\<open>npos\<close>.
  \<open>find_str s pat\<close> is \<^verbatim>\<open>s.find(pat, 0)\<close>, \<open>find_last_of s c\<close> is
  \<^verbatim>\<open>s.find_last_of(c)\<close> and \<open>find_first_of s cs\<close> is \<^verbatim>\<open>s.find_first_of(cs)\<close>: the first
  position holding any one character of \<open>cs\<close>.
\<close>

fun find_str :: "string \<Rightarrow> string \<Rightarrow> nat option" where
  "find_str [] pat = (if pat = [] then Some 0 else None)"
| "find_str (c # cs) pat =
     (if prefix pat (c # cs) then Some 0 else map_option Suc (find_str cs pat))"

fun find_last_of :: "string \<Rightarrow> char \<Rightarrow> nat option" where
  "find_last_of [] ch = None"
| "find_last_of (c # cs) ch =
     (case find_last_of cs ch of
        Some i \<Rightarrow> Some (Suc i)
      | None \<Rightarrow> if c = ch then Some 0 else None)"

fun find_first_of :: "string \<Rightarrow> string \<Rightarrow> nat option" where
  "find_first_of [] chars = None"
| "find_first_of (c # cs) chars =
     (if c \<in> set chars then Some 0 else map_option Suc (find_first_of cs chars))"

text \<open>\<^verbatim>\<open>s.replace(pos, len, "")\<close>: the characters from \<open>pos\<close>, at most \<open>len\<close> of them, go.\<close>

definition erase :: "string \<Rightarrow> nat \<Rightarrow> nat \<Rightarrow> string" where
  "erase s pos len = take pos s @ drop (pos + len) s"

text \<open>
  The operations of \<^verbatim>\<open>std::filesystem::path\<close> the file uses, for the build without
  \<^verbatim>\<open>_WIN32\<close>: the separator is \<open>/\<close>, and a path is absolute when it starts with one.
  \<open>filename\<close> is the text after the last separator. \<open>parent_path\<close> drops the last
  element and the separators before it, and keeps a path that has no element but
  the root. \<open>path_append\<close> is \<^verbatim>\<open>append\<close> (\<^verbatim>\<open>operator/=\<close>): an absolute right side
  replaces the left, else a separator is put between the two when the left ends in a
  file name.
\<close>

definition filename :: "string \<Rightarrow> string" where
  "filename p = rev (takeWhile (\<lambda>c. c \<noteq> CHR ''/'') (rev p))"

definition parent_path :: "string \<Rightarrow> string" where
  "parent_path p =
     (if list_all (\<lambda>c. c = CHR ''/'') p then p
      else
        (let d = rev (dropWhile (\<lambda>c. c \<noteq> CHR ''/'') (rev p));
             d' = rev (dropWhile (\<lambda>c. c = CHR ''/'') (rev d))
         in if d' = [] then (if d = [] then [] else ''/'') else d'))"

definition is_absolute :: "string \<Rightarrow> bool" where
  "is_absolute p = (case p of [] \<Rightarrow> False | c # cs \<Rightarrow> c = CHR ''/'')"

definition path_append :: "string \<Rightarrow> string \<Rightarrow> string" where
  "path_append p q =
     (if is_absolute q then q
      else if p \<noteq> [] \<and> last p \<noteq> CHR ''/'' then p @ ''/'' @ q
      else p @ q)"

section \<open>The file system, the shared file name and the backend\<close>

text \<open>
  A file as the loader sees it: whether it is a regular file
  (\<^verbatim>\<open>std::filesystem::is_regular_file\<close>), whether opening it for reading yields a good
  stream, whether reading it succeeds, and its bytes. The world is the part of the
  environment the file reads and writes: the files by path, the paths at which an
  output stream can be opened, the file name held by the process-wide
  \<^verbatim>\<open>SharedContext\<close>, and a trace of the file-system and backend calls made so far, in
  order. Logging is left out.
\<close>

record file_obj =
  is_regular :: bool
  can_open :: bool
  can_read :: bool
  content :: string

datatype event =
    FsIsRegularFile string
  | FsOpenRead string
  | FsTell string
  | FsRead string nat
  | FsOpenWrite string
  | FsWrite string string
  | BackendLoad string nat string "64 word"

record world =
  files :: "string \<rightharpoonup> file_obj"
  can_create :: "string \<Rightarrow> bool"
  SharedCtxBinFileName :: string
  trace :: "event list"

definition log_event :: "event \<Rightarrow> world \<Rightarrow> world" where
  "log_event e w = w\<lparr>trace := trace w @ [e]\<rparr>"

fun is_fs_event :: "event \<Rightarrow> bool" where
  "is_fs_event (BackendLoad buf len nm sz) = False"
| "is_fs_event e = True"

fun is_write_event :: "event \<Rightarrow> bool" where
  "is_write_event (FsWrite p b) = True"
| "is_write_event e = False"

fun is_read_event :: "event \<Rightarrow> bool" where
  "is_read_event (FsRead p k) = True"
| "is_read_event e = False"

fun is_backend_event :: "event \<Rightarrow> bool" where
  "is_backend_event (BackendLoad buf len nm sz) = True"
| "is_backend_event e = False"

text \<open>
  \<^verbatim>\<open>QnnBackendManager::LoadCachedQnnContextFromBuffer\<close> is outside this file: the
  backend is a parameter, a function from the buffer, its length, the node's name and
  the sizing value to a status. The lookup table of models it fills is left out.
\<close>

type_synonym backend = "string \<Rightarrow> nat \<Rightarrow> string \<Rightarrow> 64 word \<Rightarrow> status"

definition LoadCachedQnnContextFromBuffer ::
  "backend \<Rightarrow> string \<Rightarrow> nat \<Rightarrow> string \<Rightarrow> 64 word \<Rightarrow> world \<Rightarrow> status \<times> world" where
  "LoadCachedQnnContextFromBuffer be buf len nm sz w =
     (be buf len nm sz, log_event (BackendLoad buf len nm sz) w)"

section \<open>Loading the context of the main node\<close>

text \<open>
  Lines 126 to 149: the file at the resolved path is checked, opened, measured, read and
  handed to the backend. \<^verbatim>\<open>make_unique\<close> does not return null, so the check of line 140
  has no branch here.
\<close>

definition load_cache_file ::
  "backend \<Rightarrow> string \<Rightarrow> string \<Rightarrow> 64 word \<Rightarrow> world \<Rightarrow> status \<times> world" where
  "load_cache_file be context_binary_path node_name max_spill_fill_size w =
     (let w1 = log_event (FsIsRegularFile context_binary_path) w in
      case files w context_binary_path of
        None \<Rightarrow>
          (Error INVALID_GRAPH
             ''The file path in ep_cache_context does not exist or is not accessible.'', w1)
      | Some f \<Rightarrow>
          if \<not> is_regular f then
            (Error INVALID_GRAPH
               ''The file path in ep_cache_context does not exist or is not accessible.'', w1)
          else
            (let w2 = log_event (FsOpenRead context_binary_path) w1 in
             if \<not> can_open f then (ORT_RETURN_IF_status ''Failed to open cache file.'', w2)
             else
               (let w3 = log_event (FsTell context_binary_path) w2;
                    buffer_size = length (content f)
                in if 0 = buffer_size then
                     (ORT_RETURN_IF_status ''Empty cache file encountered.'', w3)
                   else
                     (let w4 = log_event (FsRead context_binary_path buffer_size) w3 in
                      if \<not> can_read f then
                        (ORT_RETURN_IF_status
                           ''Failed to read contents from cached context file.'', w4)
                      else
                        LoadCachedQnnContextFromBuffer be (content f) buffer_size
                          node_name max_spill_fill_size w4))))"

text \<open>Lines 85 to 125, the branch of the build without \<^verbatim>\<open>_WIN32\<close>, then the above.\<close>

definition GetEpContextFromMainNode ::
  "backend \<Rightarrow> node \<Rightarrow> string \<Rightarrow> 64 word \<Rightarrow> world \<Rightarrow> status \<times> world" where
  "GetEpContextFromMainNode be main_context_node ctx_onnx_model_path max_spill_fill_size w =
     (if \<not> (EPCONTEXT_OP = OpType main_context_node) then
        (ORT_RETURN_IF_status ''Should only filter in the EPContext node.'', w)
      else if Get_bool main_context_node EMBED_MODE True then
        (let context_binary = Get_string main_context_node EP_CACHE_CONTEXT []
         in LoadCachedQnnContextFromBuffer be context_binary (length context_binary)
              (Name main_context_node) max_spill_fill_size w)
      else
        (let folder_path = parent_path ctx_onnx_model_path;
             external_qnn_ctx_binary_file_name =
               Get_string main_context_node EP_CACHE_CONTEXT []
         in if external_qnn_ctx_binary_file_name = [] then
              (ORT_RETURN_IF_status ''The file path in ep_cache_context should not be empty.'', w)
            else if is_absolute external_qnn_ctx_binary_file_name then
              (ORT_RETURN_IF_status
                 (''External mode should set ep_cache_context field with a relative path, but it is an absolute path: ''
                  @ external_qnn_ctx_binary_file_name), w)
            else if find_str external_qnn_ctx_binary_file_name ''..'' \<noteq> None then
              (Error INVALID_GRAPH
                 ''The file path in ep_cache_context field has '..'. It's not allowed to point outside the directory.'',
               w)
            else
              (let context_binary_path = path_append folder_path external_qnn_ctx_binary_file_name
               in load_cache_file be context_binary_path (Name main_context_node)
                    max_spill_fill_size w)))"

text \<open>Lines 179 to 196.\<close>

definition LoadQnnCtxFromOnnxGraph ::
  "backend \<Rightarrow> graph_viewer \<Rightarrow> string \<Rightarrow> 64 word \<Rightarrow> world \<Rightarrow> status \<times> world" where
  "LoadQnnCtxFromOnnxGraph be gv ctx_onnx_model_path max_spill_fill_size w =
     (case gv of
        [n] \<Rightarrow>
          (case GetEpContextFromMainNode be n ctx_onnx_model_path max_spill_fill_size w of
             (st, w') \<Rightarrow>
               if \<not> IsOK st then
                 (Error INVALID_GRAPH
                    (''Failed to load from EpContext model. '' @ ErrorMessage st), w')
               else (OK, w'))
      | _ \<Rightarrow> (ORT_RETURN_IF_status ''One filtered graph should has only one EPContext node!'', w))"

section \<open>Selecting the main context\<close>

text \<open>
  Lines 45 to 63. The positions found are appended to the vector the caller passes; the
  vector is returned with the status.
\<close>

fun GetMainContextNode_loop ::
  "fused_node_and_graph list \<Rightarrow> nat \<Rightarrow> int list \<Rightarrow> status \<times> int list" where
  "GetMainContextNode_loop [] i main_context_pos = (OK, main_context_pos)"
| "GetMainContextNode_loop (f # fs) i main_context_pos =
     (case filtered_graph f of
        [ep_context_node] \<Rightarrow>
          if \<not> (EPCONTEXT_OP = OpType ep_context_node) then
            (ORT_RETURN_IF_status ''Should only filter in the EPContext node.'', main_context_pos)
          else
            (let is_main_context = Get_int64 ep_context_node MAIN_CONTEXT 0
             in GetMainContextNode_loop fs (Suc i)
                  (if 1 = is_main_context then main_context_pos @ [int i]
                   else main_context_pos))
      | _ \<Rightarrow>
          (ORT_RETURN_IF_status ''One filtered graph should has only one EPContext node!'',
           main_context_pos))"

definition GetMainContextNode ::
  "fused_node_and_graph list \<Rightarrow> int list \<Rightarrow> status \<times> int list" where
  "GetMainContextNode fused_nodes_and_graphs main_context_pos =
     (case GetMainContextNode_loop fused_nodes_and_graphs 0 main_context_pos of
        (Error c m, pos) \<Rightarrow> (Error c m, pos)
      | (OK, pos) \<Rightarrow>
          if length pos < 1 then
            (ORT_RETURN_IF_status ''Failed to find the EPContext node with main_context=1'', pos)
          else (OK, pos))"

text \<open>
  Lines 152 to 177. The comparison of line 165 is one of signed 64-bit integers. An index
  outside a vector is undefined behaviour in the source: the result is \<open>None\<close> there.
  The loop returns the status, the largest size so far and its index; on an error the
  list of positions is as it was.
\<close>

function TryGetMaxSpillFillSize_loop ::
  "fused_node_and_graph list \<Rightarrow> nat \<Rightarrow> int list \<Rightarrow> nat \<Rightarrow> 64 word \<Rightarrow> nat
     \<Rightarrow> (status \<times> 64 word \<times> nat) option" where
  "TryGetMaxSpillFillSize_loop fs total_context_size main_context_pos_list i
       max_spill_fill_size max_size_index =
     (if i < total_context_size then
        (if \<not> i < length main_context_pos_list then None
         else
           (let index = main_context_pos_list ! i in
            if index < 0 \<or> \<not> nat index < length fs then None
            else
              (case filtered_graph (fs ! nat index) of
                 [ep_context_node] \<Rightarrow>
                   (let max_size = Get_int64 ep_context_node MAX_SIZE 0 in
                    if max_spill_fill_size <s max_size then
                      TryGetMaxSpillFillSize_loop fs total_context_size main_context_pos_list
                        (Suc i) max_size i
                    else
                      TryGetMaxSpillFillSize_loop fs total_context_size main_context_pos_list
                        (Suc i) max_spill_fill_size max_size_index)
               | _ \<Rightarrow>
                   Some (ORT_RETURN_IF_status
                           ''One filtered graph should has only one EPContext node!'',
                         max_spill_fill_size, max_size_index))))
      else Some (OK, max_spill_fill_size, max_size_index))"
  by pat_completeness auto
termination
  by (relation "measure (\<lambda>(fs, total, pos, i, m, k). total - i)") auto

definition TryGetMaxSpillFillSize ::
  "fused_node_and_graph list \<Rightarrow> nat \<Rightarrow> int list \<Rightarrow> (status \<times> 64 word \<times> int list) option" where
  "TryGetMaxSpillFillSize fused_nodes_and_graphs total_context_size main_context_pos_list =
     (case TryGetMaxSpillFillSize_loop fused_nodes_and_graphs total_context_size
             main_context_pos_list 0 0 0 of
        None \<Rightarrow> None
      | Some (Error c m, max_spill_fill_size, max_size_index) \<Rightarrow>
          Some (Error c m, max_spill_fill_size, main_context_pos_list)
      | Some (OK, max_spill_fill_size, max_size_index) \<Rightarrow>
          if 0 \<noteq> max_size_index then
            (let tmp_index = main_context_pos_list ! 0 in
             Some (OK, max_spill_fill_size,
                   (main_context_pos_list[0 := main_context_pos_list ! max_size_index])
                     [max_size_index := tmp_index]))
          else Some (OK, max_spill_fill_size, main_context_pos_list))"

section \<open>Writing the context nodes\<close>

text \<open>
  The tensor information of a compiled model: the fields \<^verbatim>\<open>data_type_\<close> and \<^verbatim>\<open>shape_\<close>.
\<close>

record OnnxTensorInfo =
  tensor_data_type :: int
  tensor_shape :: "nat list"

record QnnModel =
  GetInputNames :: "string list"
  GetInputsInfo :: "string \<rightharpoonup> OnnxTensorInfo"
  GetOutputNames :: "string list"
  GetOutputsInfo :: "string \<rightharpoonup> OnnxTensorInfo"

type_synonym QnnModelLookupTable = "string \<rightharpoonup> QnnModel"

record graph =
  GraphNodes :: "node list"
  GraphNodeArgs :: "string \<rightharpoonup> node_arg"

text \<open>
  Modelled from the spec: \<^verbatim>\<open>Graph::GetOrCreateNodeArg\<close> and \<^verbatim>\<open>Graph::AddNode\<close> are outside
  this file (spec 6: "create nodes with given name/type/inputs/outputs/domain,
  get-or-create a typed tensor placeholder by name"). \<^verbatim>\<open>AddNode\<close> returns a reference to
  the node it put in the graph, and the attributes are added through the reference: the
  model builds the node's value with \<open>AddNode\<close> and \<open>AddAttribute\<close>, and \<open>put_node\<close>
  places it after the graph's nodes wherever the iteration ends, with OK or an error.
\<close>

definition GetOrCreateNodeArg :: "string \<Rightarrow> int \<Rightarrow> nat list \<Rightarrow> graph \<Rightarrow> node_arg \<times> graph" where
  "GetOrCreateNodeArg nm et ds g =
     (case GraphNodeArgs g nm of
        Some a \<Rightarrow> (a, g)
      | None \<Rightarrow>
          (let a = \<lparr>ArgName = nm, ElemType = et, Dims = ds\<rparr>
           in (a, g\<lparr>GraphNodeArgs := (GraphNodeArgs g)(nm \<mapsto> a)\<rparr>)))"

definition AddNode ::
  "string \<Rightarrow> string \<Rightarrow> string \<Rightarrow> node_arg list \<Rightarrow> node_arg list \<Rightarrow> string \<Rightarrow> node" where
  "AddNode nm op descr inputs outputs domain_name =
     \<lparr>Name = nm, OpType = op, Description = descr, InputDefs = inputs, OutputDefs = outputs,
      Domain = domain_name, Attributes = Map.empty\<rparr>"

definition put_node :: "node \<Rightarrow> graph \<Rightarrow> graph" where
  "put_node n g = g\<lparr>GraphNodes := GraphNodes g @ [n]\<rparr>"

text \<open>Lines 65 to 83.\<close>

fun CreateNodeArgs ::
  "string list \<Rightarrow> (string \<rightharpoonup> OnnxTensorInfo) \<Rightarrow> node_arg list \<Rightarrow> graph
     \<Rightarrow> status \<times> node_arg list \<times> graph" where
  "CreateNodeArgs [] tensor_info_table node_args g = (OK, node_args, g)"
| "CreateNodeArgs (nm # names) tensor_info_table node_args g =
     (case tensor_info_table nm of
        None \<Rightarrow>
          (ORT_RETURN_IF_status (''Tensor name: '' @ nm @ '' not found in tensor_info_table''),
           node_args, g)
      | Some tensor_info \<Rightarrow>
          (case GetOrCreateNodeArg nm (tensor_data_type tensor_info) (tensor_shape tensor_info) g of
             (input_arg, g') \<Rightarrow>
               CreateNodeArgs names tensor_info_table (node_args @ [input_arg]) g'))"

text \<open>
  Lines 250 to 254: the name of the partition as it goes into the file name. The search
  is \<^verbatim>\<open>find_first_of\<close>: from the first character of the name that occurs in the
  provider's name, as many characters as the provider's name has are removed.
\<close>

definition graph_name_in_file :: "string \<Rightarrow> string" where
  "graph_name_in_file graph_name =
     (case find_first_of graph_name kQnnExecutionProvider of
        Some name_pos \<Rightarrow> erase graph_name name_pos (length kQnnExecutionProvider)
      | None \<Rightarrow> graph_name)"

text \<open>Lines 242 to 256: the path of the binary file, whose file name goes into the node.\<close>

definition context_bin_file_path :: "string \<Rightarrow> string \<Rightarrow> string" where
  "context_bin_file_path context_model_path graph_name =
     (let context_bin_path =
            (case find_last_of context_model_path CHR ''.'' of
               Some pos \<Rightarrow> take pos context_model_path
             | None \<Rightarrow> context_model_path)
      in context_bin_path @ graph_name_in_file graph_name @ ''.bin'')"

text \<open>
  Lines 258 to 268: with sharing, the first name is recorded in the shared context and
  later invocations take the recorded name, in the folder of their own path. The result
  is the file name, the path of the file and the world.
\<close>

definition shared_ctx_bin ::
  "bool \<Rightarrow> string \<Rightarrow> string \<Rightarrow> world \<Rightarrow> string \<times> string \<times> world" where
  "shared_ctx_bin share_ep_contexts context_cache_name context_bin_path w =
     (if share_ep_contexts then
        (let shared_ctx_bin_name = SharedCtxBinFileName w in
         if shared_ctx_bin_name = [] then
           (context_cache_name, context_bin_path, w\<lparr>SharedCtxBinFileName := context_cache_name\<rparr>)
         else
           (let model_folder_path = parent_path context_bin_path
            in (shared_ctx_bin_name, model_folder_path @ ''/'' @ shared_ctx_bin_name, w)))
      else (context_cache_name, context_bin_path, w))"

text \<open>
  Lines 273 to 278: the output stream is opened and the buffer written. A file this
  process has just written is a regular file it can open and read.
\<close>

definition write_ctx_bin :: "string \<Rightarrow> string \<Rightarrow> world \<Rightarrow> status \<times> world" where
  "write_ctx_bin context_bin_path buffer w =
     (let w1 = log_event (FsOpenWrite context_bin_path) w in
      if \<not> can_create w context_bin_path then
        (Error FAIL ''Failed to open context cache file.'', w1)
      else
        (OK, log_event (FsWrite context_bin_path buffer)
               (w1\<lparr>files := (files w1)(context_bin_path \<mapsto>
                     \<lparr>is_regular = True, can_open = True, can_read = True,
                      content = buffer\<rparr>)\<rparr>)))"

text \<open>
  Lines 237 to 287, the branch of the first partition. The buffer is the
  \<^verbatim>\<open>buffer_size\<close> bytes at \<^verbatim>\<open>buffer\<close>.
\<close>

definition dump_main_context ::
  "string \<Rightarrow> string \<Rightarrow> string \<Rightarrow> bool \<Rightarrow> 64 word \<Rightarrow> bool \<Rightarrow> bool \<Rightarrow> node \<Rightarrow> world
     \<Rightarrow> status \<times> node \<times> world" where
  "dump_main_context buffer graph_name context_model_path qnn_context_embed_mode
       max_spill_fill_buffer_size share_ep_contexts stop_share_ep_contexts ep_node w =
     (if qnn_context_embed_mode then
        (OK, AddAttribute EP_CACHE_CONTEXT (AttrString buffer) ep_node, w)
      else
        (case shared_ctx_bin share_ep_contexts
                (filename (context_bin_file_path context_model_path graph_name))
                (context_bin_file_path context_model_path graph_name) w of
           (context_cache_name, context_bin_path, w1) \<Rightarrow>
             (case (if \<not> share_ep_contexts \<or> (share_ep_contexts \<and> stop_share_ep_contexts)
                    then write_ctx_bin context_bin_path buffer w1 else (OK, w1)) of
                (Error c m, w2) \<Rightarrow> (Error c m, ep_node, w2)
              | (OK, w2) \<Rightarrow>
                  (let ep_node1 = AddAttribute EP_CACHE_CONTEXT (AttrString context_cache_name) ep_node;
                       w3 = (if share_ep_contexts \<and> stop_share_ep_contexts
                             then w2\<lparr>SharedCtxBinFileName := []\<rparr> else w2);
                       ep_node2 = AddAttribute MAX_SIZE (AttrInt max_spill_fill_buffer_size) ep_node1
                   in (OK, ep_node2, w3)))))"

text \<open>Lines 217 to 296: one iteration of the loop over the fused partitions.\<close>

definition create_ep_node ::
  "string \<Rightarrow> string \<Rightarrow> QnnModelLookupTable \<Rightarrow> string \<Rightarrow> bool \<Rightarrow> 64 word \<Rightarrow> bool \<Rightarrow> bool
     \<Rightarrow> nat \<Rightarrow> fused_node_and_graph \<Rightarrow> graph \<Rightarrow> world \<Rightarrow> status \<times> graph \<times> world" where
  "create_ep_node buffer sdk_build_version qnn_models context_model_path qnn_context_embed_mode
       max_spill_fill_buffer_size share_ep_contexts stop_share_ep_contexts
       index fused_node_graph g w =
     (case qnn_models (Name (fused_node fused_node_graph)) of
        None \<Rightarrow>
          (ORT_RETURN_IF_status (Name (fused_node fused_node_graph) @ '' not exist in QnnModel table.''),
           g, w)
      | Some qnn_model \<Rightarrow>
          (case CreateNodeArgs (GetInputNames qnn_model) (GetInputsInfo qnn_model) [] g of
             (Error c m, inputs, g1) \<Rightarrow> (Error c m, g1, w)
           | (OK, inputs, g1) \<Rightarrow>
               (case CreateNodeArgs (GetOutputNames qnn_model) (GetOutputsInfo qnn_model) [] g1 of
                  (Error c m, outputs, g2) \<Rightarrow> (Error c m, g2, w)
                | (OK, outputs, g2) \<Rightarrow>
                    (let graph_name = Name (fused_node fused_node_graph);
                         ep_node = AddNode graph_name EPCONTEXT_OP
                                     (''Onnx Qnn context binary cache for graph partition: '' @ graph_name)
                                     inputs outputs kMSDomain
                     in case (if 0 = index then
                                dump_main_context buffer graph_name context_model_path
                                  qnn_context_embed_mode max_spill_fill_buffer_size
                                  share_ep_contexts stop_share_ep_contexts ep_node w
                              else (OK, AddAttribute MAIN_CONTEXT (AttrInt 0) ep_node, w)) of
                          (Error c m, ep_node1, w1) \<Rightarrow> (Error c m, put_node ep_node1 g2, w1)
                        | (OK, ep_node1, w1) \<Rightarrow>
                            (let embed_mode = (if qnn_context_embed_mode then 1 else 0);
                                 ep_node2 = AddAttribute EMBED_MODE (AttrInt embed_mode) ep_node1;
                                 ep_node3 = AddAttribute EP_SDK_VER (AttrString sdk_build_version) ep_node2;
                                 ep_node4 = AddAttribute PARTITION_NAME (AttrString graph_name) ep_node3;
                                 ep_node5 = AddAttribute SOURCE (AttrString kQnnExecutionProvider) ep_node4
                             in (OK, put_node ep_node5 g2, w1))))))"

text \<open>Lines 198 to 300: the loop stops at the first iteration that returns an error.\<close>

fun CreateEPContextNodes_loop ::
  "string \<Rightarrow> string \<Rightarrow> QnnModelLookupTable \<Rightarrow> string \<Rightarrow> bool \<Rightarrow> 64 word \<Rightarrow> bool \<Rightarrow> bool
     \<Rightarrow> nat \<Rightarrow> fused_node_and_graph list \<Rightarrow> graph \<Rightarrow> world \<Rightarrow> status \<times> graph \<times> world" where
  "CreateEPContextNodes_loop buffer sdk qnn_models cpath emb max_size share stop index [] g w =
     (OK, g, w)"
| "CreateEPContextNodes_loop buffer sdk qnn_models cpath emb max_size share stop index (f # fs) g w =
     (case create_ep_node buffer sdk qnn_models cpath emb max_size share stop index f g w of
        (Error c m, g1, w1) \<Rightarrow> (Error c m, g1, w1)
      | (OK, g1, w1) \<Rightarrow>
          CreateEPContextNodes_loop buffer sdk qnn_models cpath emb max_size share stop
            (Suc index) fs g1 w1)"

definition CreateEPContextNodes ::
  "graph \<Rightarrow> string \<Rightarrow> string \<Rightarrow> fused_node_and_graph list \<Rightarrow> QnnModelLookupTable \<Rightarrow> string
     \<Rightarrow> bool \<Rightarrow> 64 word \<Rightarrow> bool \<Rightarrow> bool \<Rightarrow> world \<Rightarrow> status \<times> graph \<times> world" where
  "CreateEPContextNodes model buffer sdk_build_version fused_nodes_and_graphs qnn_models
       context_model_path qnn_context_embed_mode max_spill_fill_buffer_size
       share_ep_contexts stop_share_ep_contexts w =
     CreateEPContextNodes_loop buffer sdk_build_version qnn_models context_model_path
       qnn_context_embed_mode max_spill_fill_buffer_size share_ep_contexts
       stop_share_ep_contexts 0 fused_nodes_and_graphs model w"

section \<open>Names used in the statements\<close>

text \<open>
  The file name and the path of the binary file that the branch of the first partition
  settles on (lines 242 to 268), read off \<open>shared_ctx_bin\<close>, and the four attributes
  every node receives at lines 291 to 295.
\<close>

definition ctx_cache_name :: "bool \<Rightarrow> string \<Rightarrow> string \<Rightarrow> world \<Rightarrow> string" where
  "ctx_cache_name share cpath gname w =
     fst (shared_ctx_bin share (filename (context_bin_file_path cpath gname))
            (context_bin_file_path cpath gname) w)"

definition ctx_bin_path :: "bool \<Rightarrow> string \<Rightarrow> string \<Rightarrow> world \<Rightarrow> string" where
  "ctx_bin_path share cpath gname w =
     fst (snd (shared_ctx_bin share (filename (context_bin_file_path cpath gname))
                 (context_bin_file_path cpath gname) w))"

definition common_attrs ::
  "bool \<Rightarrow> string \<Rightarrow> string \<Rightarrow> (string \<rightharpoonup> attr_value) \<Rightarrow> (string \<rightharpoonup> attr_value)" where
  "common_attrs emb sdk gname m =
     m(EMBED_MODE \<mapsto> AttrInt (if emb then 1 else 0), EP_SDK_VER \<mapsto> AttrString sdk,
       PARTITION_NAME \<mapsto> AttrString gname, SOURCE \<mapsto> AttrString kQnnExecutionProvider)"

text \<open>The events an invocation adds to the trace of the world it started from.\<close>

definition new_events :: "world \<Rightarrow> world \<Rightarrow> event list" where
  "new_events w w' = drop (length (trace w)) (trace w')"

section \<open>Concrete inputs\<close>

text \<open>
  Small inputs on which the theorems below are instantiated: an empty world in which
  every output file can be created, a backend that accepts every buffer, an empty model
  graph, partitions named after the provider, and a table with a compiled model for
  each of three partitions.
\<close>

definition world0 :: world where
  "world0 = \<lparr>files = Map.empty, can_create = (\<lambda>p. True), SharedCtxBinFileName = [], trace = []\<rparr>"

definition backend_ok :: backend where
  "backend_ok buf len nm sz = OK"

definition graph0 :: graph where
  "graph0 = \<lparr>GraphNodes = [], GraphNodeArgs = Map.empty\<rparr>"

definition part :: "string \<Rightarrow> fused_node_and_graph" where
  "part nm = \<lparr>fused_node = mk_node nm ''FusedQnn'' Map.empty, filtered_graph = []\<rparr>"

definition qnn_model0 :: QnnModel where
  "qnn_model0 =
     \<lparr>GetInputNames = [''x''],
      GetInputsInfo = [''x'' \<mapsto> \<lparr>tensor_data_type = 1, tensor_shape = [1, 3]\<rparr>],
      GetOutputNames = [''y''],
      GetOutputsInfo = [''y'' \<mapsto> \<lparr>tensor_data_type = 1, tensor_shape = [1]\<rparr>]\<rparr>"

definition qnn_models0 :: QnnModelLookupTable where
  "qnn_models0 = [''QNNExecutionProvider_0'' \<mapsto> qnn_model0,
                  ''QNNExecutionProvider_1'' \<mapsto> qnn_model0,
                  ''QNNExecutionProvider_2'' \<mapsto> qnn_model0]"

text \<open>A loaded partition: a filtered graph with the one context node given.\<close>

definition loaded :: "node \<Rightarrow> fused_node_and_graph" where
  "loaded n = \<lparr>fused_node = n, filtered_graph = [n]\<rparr>"

text \<open>
  The sizing value of the partition at place \<open>i\<close> of the list of positions, and the
  condition under which every index of \<^verbatim>\<open>TryGetMaxSpillFillSize\<close> is within its vector and
  every filtered graph has its one node.
\<close>

definition size_at :: "fused_node_and_graph list \<Rightarrow> int list \<Rightarrow> nat \<Rightarrow> 64 word" where
  "size_at fs pos i =
     (case filtered_graph (fs ! nat (pos ! i)) of
        [n] \<Rightarrow> Get_int64 n MAX_SIZE 0
      | _ \<Rightarrow> 0)"

definition valid_positions :: "fused_node_and_graph list \<Rightarrow> int list \<Rightarrow> bool" where
  "valid_positions fs pos =
     list_all (\<lambda>p. 0 \<le> p \<and> nat p < length fs \<and> length (filtered_graph (fs ! nat p)) = 1) pos"

text \<open>
  The first node an invocation of the writer put into the model's graph, and a session:
  a sequence of invocations of the writer that share the world, each with its own
  arguments. A session returns, for every invocation, the status, the graph and the
  events it added to the trace, and the world at the end. \<open>call_name\<close> is the file
  name an invocation computes from its own path and first partition.
\<close>

definition first_emitted :: "graph \<Rightarrow> graph \<Rightarrow> node" where
  "first_emitted model g' = GraphNodes g' ! length (GraphNodes model)"

record writer_call =
  call_model :: graph
  call_buffer :: string
  call_sdk :: string
  call_fused :: "fused_node_and_graph list"
  call_qnn_models :: QnnModelLookupTable
  call_path :: string
  call_embed :: bool
  call_max_size :: "64 word"
  call_share :: bool
  call_stop :: bool

definition invoke :: "writer_call \<Rightarrow> world \<Rightarrow> status \<times> graph \<times> world" where
  "invoke c w =
     CreateEPContextNodes (call_model c) (call_buffer c) (call_sdk c) (call_fused c)
       (call_qnn_models c) (call_path c) (call_embed c) (call_max_size c)
       (call_share c) (call_stop c) w"

fun run_session ::
  "writer_call list \<Rightarrow> world \<Rightarrow> (status \<times> graph \<times> event list) list \<times> world" where
  "run_session [] w = ([], w)"
| "run_session (c # cs) w =
     (case invoke c w of
        (st, g', w1) \<Rightarrow>
          (case run_session cs w1 of
             (rs, w2) \<Rightarrow> ((st, g', new_events w w1) # rs, w2)))"

definition call_name :: "writer_call \<Rightarrow> string" where
  "call_name c =
     filename (context_bin_file_path (call_path c) (Name (fused_node (hd (call_fused c)))))"

text \<open>
  The path of the binary file an invocation derives from its own model path and first
  partition, the path at which the final invocation of a sharing session opens the file
  (lines 259 to 267: its own path when it is the only invocation, else the folder of its
  own path, a separator and the name the first invocation recorded), and the file a write
  leaves.
\<close>

definition call_bin_path :: "writer_call \<Rightarrow> string" where
  "call_bin_path c =
     context_bin_file_path (call_path c) (Name (fused_node (hd (call_fused c))))"

definition session_bin_path :: "writer_call list \<Rightarrow> writer_call \<Rightarrow> string" where
  "session_bin_path pre final =
     (if pre = [] then call_bin_path final
      else parent_path (call_bin_path final) @ ''/'' @ call_name (hd pre))"

definition written_file :: "string \<Rightarrow> file_obj" where
  "written_file buffer =
     \<lparr>is_regular = True, can_open = True, can_read = True, content = buffer\<rparr>"

section \<open>Concrete runs\<close>

text \<open>
  Invocations of the writer and nodes for the loader on which the statements below are
  evaluated: two partitions written to an external file, written inline, written by the
  first participant of a sharing session, written with an empty buffer, and written for a
  model path whose only dot is in the folder's name; a node that
  refers to an external file and one that carries its payload; a world with an empty file;
  a loaded partition with a given sizing value; and a sharing session of three invocations,
  the last of which is final.
\<close>

definition attr_of :: "string \<Rightarrow> node \<Rightarrow> attr_value option" where
  "attr_of key n = Attributes n key"

definition parts2 :: "fused_node_and_graph list" where
  "parts2 = [part ''QNNExecutionProvider_0'', part ''QNNExecutionProvider_1'']"

definition write_external :: "status \<times> graph \<times> world" where
  "write_external =
     CreateEPContextNodes graph0 ''blob'' ''v1'' parts2 qnn_models0 ''dir/model.onnx''
       False 7 False False world0"

definition write_embedded :: "status \<times> graph \<times> world" where
  "write_embedded =
     CreateEPContextNodes graph0 ''blob'' ''v1'' parts2 qnn_models0 ''dir/model.onnx''
       True 7 False False world0"

definition write_shared_first :: "status \<times> graph \<times> world" where
  "write_shared_first =
     CreateEPContextNodes graph0 ''blob'' ''v1'' parts2 qnn_models0 ''dir/model.onnx''
       False 7 True False world0"

definition write_empty_blob :: "status \<times> graph \<times> world" where
  "write_empty_blob =
     CreateEPContextNodes graph0 [] ''v1'' parts2 qnn_models0 ''dir/model.onnx''
       False 7 False False world0"

definition write_dotted_folder :: "status \<times> graph \<times> world" where
  "write_dotted_folder =
     CreateEPContextNodes graph0 ''blob'' ''v1'' parts2 qnn_models0 ''out.d/model''
       False 7 False False world0"

definition external_node :: "string \<Rightarrow> node" where
  "external_node ref =
     mk_node ''ctx'' EPCONTEXT_OP [EMBED_MODE \<mapsto> AttrInt 0, EP_CACHE_CONTEXT \<mapsto> AttrString ref]"

definition embedded_node :: "string \<Rightarrow> node" where
  "embedded_node payload =
     mk_node ''ctx'' EPCONTEXT_OP [EMBED_MODE \<mapsto> AttrInt 1, EP_CACHE_CONTEXT \<mapsto> AttrString payload]"

definition world_empty_file :: world where
  "world_empty_file =
     world0\<lparr>files := [''dir/model_0.bin'' \<mapsto>
               \<lparr>is_regular = True, can_open = True, can_read = True, content = []\<rparr>]\<rparr>"

definition sized :: "64 word \<Rightarrow> fused_node_and_graph" where
  "sized k = loaded (mk_node ''ctx'' EPCONTEXT_OP [MAX_SIZE \<mapsto> AttrInt k])"

definition session_call :: "string \<Rightarrow> bool \<Rightarrow> writer_call" where
  "session_call cpath stop =
     \<lparr>call_model = graph0, call_buffer = ''blob'', call_sdk = ''v1'',
      call_fused = [part ''QNNExecutionProvider_0''], call_qnn_models = qnn_models0,
      call_path = cpath, call_embed = False, call_max_size = 7, call_share = True,
      call_stop = stop\<rparr>"

definition session3 :: "(status \<times> graph \<times> event list) list \<times> world" where
  "session3 =
     run_session ([session_call ''dir/a.onnx'' False, session_call ''dir/b.onnx'' False]
                  @ [session_call ''dir/c.onnx'' True]) world0"

text \<open>A sharing session of two invocations whose model paths have no folder.\<close>

definition session_folderless :: "(status \<times> graph \<times> event list) list \<times> world" where
  "session_folderless =
     run_session ([session_call ''a.onnx'' False] @ [session_call ''b.onnx'' True]) world0"

section \<open>What one iteration of the writer does\<close>

lemmas attr_names =
  EPCONTEXT_OP_def MAIN_CONTEXT_def EMBED_MODE_def EP_CACHE_CONTEXT_def EP_SDK_VER_def
  PARTITION_NAME_def SOURCE_def MAX_SIZE_def kQnnExecutionProvider_def kMSDomain_def

lemma CreateNodeArgs_nodes:
  "CreateNodeArgs names tbl acc g = (st, args, g') \<Longrightarrow> GraphNodes g' = GraphNodes g"
proof (induction names arbitrary: acc g)
  case Nil
  then show ?case by simp
next
  case (Cons nm names)
  show ?case
  proof (cases "tbl nm")
    case None
    with Cons.prems show ?thesis by simp
  next
    case (Some ti)
    obtain a g1 where ga: "GetOrCreateNodeArg nm (tensor_data_type ti) (tensor_shape ti) g = (a, g1)"
      by (cases "GetOrCreateNodeArg nm (tensor_data_type ti) (tensor_shape ti) g")
    have "GraphNodes g1 = GraphNodes g"
      using ga by (auto simp: GetOrCreateNodeArg_def Let_def split: option.splits)
    moreover have "CreateNodeArgs names tbl (acc @ [a]) g1 = (st, args, g')"
      using Cons.prems Some ga by simp
    ultimately show ?thesis using Cons.IH by metis
  qed
qed

lemma create_ep_node_other:
  assumes "create_ep_node buffer sdk qnn cpath emb mx share stop (Suc i) f g w = (OK, g', w')"
  shows "w' = w \<and> (\<exists>n. GraphNodes g' = GraphNodes g @ [n] \<and> Name n = Name (fused_node f) \<and>
           OpType n = EPCONTEXT_OP \<and>
           Attributes n = common_attrs emb sdk (Name (fused_node f)) [MAIN_CONTEXT \<mapsto> AttrInt 0])"
  using assms
  by (auto simp: create_ep_node_def ORT_RETURN_IF_status_def Let_def put_node_def AddNode_def
        AddAttribute_def common_attrs_def
      split: option.splits prod.splits status.splits dest!: CreateNodeArgs_nodes)

lemma dump_main_context_embed:
  "dump_main_context buffer gname cpath True mx share stop n w =
     (OK, AddAttribute EP_CACHE_CONTEXT (AttrString buffer) n, w)"
  by (simp add: dump_main_context_def)

lemma dump_main_context_external:
  assumes "dump_main_context buffer gname cpath False mx share stop n w = (OK, n', w')"
  shows "n' = AddAttribute MAX_SIZE (AttrInt mx)
                (AddAttribute EP_CACHE_CONTEXT (AttrString (ctx_cache_name share cpath gname w)) n)"
    and "trace w' = trace w @
           (if \<not> share \<or> stop
            then [FsOpenWrite (ctx_bin_path share cpath gname w),
                  FsWrite (ctx_bin_path share cpath gname w) buffer]
            else [])"
    and "files w' =
           (if \<not> share \<or> stop
            then (files w)(ctx_bin_path share cpath gname w \<mapsto>
                   \<lparr>is_regular = True, can_open = True, can_read = True, content = buffer\<rparr>)
            else files w)"
    and "SharedCtxBinFileName w' =
           (if share then (if stop then [] else ctx_cache_name share cpath gname w)
            else SharedCtxBinFileName w)"
  using assms
  by (auto simp: dump_main_context_def ctx_cache_name_def ctx_bin_path_def shared_ctx_bin_def
        write_ctx_bin_def log_event_def Let_def
      split: prod.splits status.splits if_splits)

lemma create_ep_node_first_embed:
  assumes "create_ep_node buffer sdk qnn cpath True mx share stop 0 f g w = (OK, g', w')"
  shows "w' = w \<and> (\<exists>n. GraphNodes g' = GraphNodes g @ [n] \<and> Name n = Name (fused_node f) \<and>
           OpType n = EPCONTEXT_OP \<and>
           Attributes n = common_attrs True sdk (Name (fused_node f))
                            [EP_CACHE_CONTEXT \<mapsto> AttrString buffer])"
  using assms
  by (auto simp: create_ep_node_def ORT_RETURN_IF_status_def Let_def put_node_def AddNode_def
        AddAttribute_def common_attrs_def dump_main_context_embed
      split: option.splits prod.splits status.splits dest!: CreateNodeArgs_nodes)

lemma create_ep_node_first_external:
  assumes "create_ep_node buffer sdk qnn cpath False mx share stop 0 f g w = (OK, g', w')"
  shows "\<exists>n. GraphNodes g' = GraphNodes g @ [n] \<and> Name n = Name (fused_node f) \<and>
           OpType n = EPCONTEXT_OP \<and>
           Attributes n = common_attrs False sdk (Name (fused_node f))
              [EP_CACHE_CONTEXT \<mapsto> AttrString (ctx_cache_name share cpath (Name (fused_node f)) w),
               MAX_SIZE \<mapsto> AttrInt mx]"
    and "trace w' = trace w @
           (if \<not> share \<or> stop
            then [FsOpenWrite (ctx_bin_path share cpath (Name (fused_node f)) w),
                  FsWrite (ctx_bin_path share cpath (Name (fused_node f)) w) buffer]
            else [])"
    and "files w' =
           (if \<not> share \<or> stop
            then (files w)(ctx_bin_path share cpath (Name (fused_node f)) w \<mapsto>
                   \<lparr>is_regular = True, can_open = True, can_read = True, content = buffer\<rparr>)
            else files w)"
    and "SharedCtxBinFileName w' =
           (if share then (if stop then [] else ctx_cache_name share cpath (Name (fused_node f)) w)
            else SharedCtxBinFileName w)"
proof -
  from assms obtain inputs outputs g2 n1 where
    d: "dump_main_context buffer (Name (fused_node f)) cpath False mx share stop
          (AddNode (Name (fused_node f)) EPCONTEXT_OP
             (''Onnx Qnn context binary cache for graph partition: '' @ Name (fused_node f))
             inputs outputs kMSDomain) w = (OK, n1, w')"
    and g2: "GraphNodes g2 = GraphNodes g"
    and g': "g' = put_node
        (AddAttribute SOURCE (AttrString kQnnExecutionProvider)
          (AddAttribute PARTITION_NAME (AttrString (Name (fused_node f)))
            (AddAttribute EP_SDK_VER (AttrString sdk)
              (AddAttribute EMBED_MODE (AttrInt 0) n1)))) g2"
    by (auto simp: create_ep_node_def ORT_RETURN_IF_status_def Let_def
        split: option.splits prod.splits status.splits dest!: CreateNodeArgs_nodes)
  note facts = dump_main_context_external[OF d]
  show "\<exists>n. GraphNodes g' = GraphNodes g @ [n] \<and> Name n = Name (fused_node f) \<and>
           OpType n = EPCONTEXT_OP \<and>
           Attributes n = common_attrs False sdk (Name (fused_node f))
              [EP_CACHE_CONTEXT \<mapsto> AttrString (ctx_cache_name share cpath (Name (fused_node f)) w),
               MAX_SIZE \<mapsto> AttrInt mx]"
    unfolding g' facts(1)
    by (simp add: put_node_def g2 AddAttribute_def AddNode_def common_attrs_def)
  show "trace w' = trace w @
           (if \<not> share \<or> stop
            then [FsOpenWrite (ctx_bin_path share cpath (Name (fused_node f)) w),
                  FsWrite (ctx_bin_path share cpath (Name (fused_node f)) w) buffer]
            else [])"
    by (rule facts(2))
  show "files w' =
           (if \<not> share \<or> stop
            then (files w)(ctx_bin_path share cpath (Name (fused_node f)) w \<mapsto>
                   \<lparr>is_regular = True, can_open = True, can_read = True, content = buffer\<rparr>)
            else files w)"
    by (rule facts(3))
  show "SharedCtxBinFileName w' =
           (if share then (if stop then [] else ctx_cache_name share cpath (Name (fused_node f)) w)
            else SharedCtxBinFileName w)"
    by (rule facts(4))
qed

lemma loop_other:
  assumes "CreateEPContextNodes_loop buffer sdk qnn cpath emb mx share stop (Suc i) fs g w = (OK, g', w')"
  shows "w' = w \<and> (\<exists>new. GraphNodes g' = GraphNodes g @ new \<and> length new = length fs \<and>
           (\<forall>k < length fs. Name (new ! k) = Name (fused_node (fs ! k)) \<and>
              OpType (new ! k) = EPCONTEXT_OP \<and>
              Attributes (new ! k) = common_attrs emb sdk (Name (fused_node (fs ! k)))
                                       [MAIN_CONTEXT \<mapsto> AttrInt 0]))"
  using assms
proof (induction fs arbitrary: i g w)
  case Nil
  then show ?case by simp
next
  case (Cons f fs)
  from Cons.prems obtain g1 w1 where
    s1: "create_ep_node buffer sdk qnn cpath emb mx share stop (Suc i) f g w = (OK, g1, w1)"
    and s2: "CreateEPContextNodes_loop buffer sdk qnn cpath emb mx share stop (Suc (Suc i)) fs g1 w1 = (OK, g', w')"
    by (auto split: prod.splits status.splits)
  from create_ep_node_other[OF s1] obtain n where
    w1: "w1 = w" and n: "GraphNodes g1 = GraphNodes g @ [n]" "Name n = Name (fused_node f)"
      "OpType n = EPCONTEXT_OP"
      "Attributes n = common_attrs emb sdk (Name (fused_node f)) [MAIN_CONTEXT \<mapsto> AttrInt 0]"
    by blast
  from Cons.IH[OF s2] obtain new where
    w': "w' = w1" and new: "GraphNodes g' = GraphNodes g1 @ new" "length new = length fs"
      "\<forall>k < length fs. Name (new ! k) = Name (fused_node (fs ! k)) \<and>
              OpType (new ! k) = EPCONTEXT_OP \<and>
              Attributes (new ! k) = common_attrs emb sdk (Name (fused_node (fs ! k)))
                                       [MAIN_CONTEXT \<mapsto> AttrInt 0]"
    by blast
  have "GraphNodes g' = GraphNodes g @ (n # new)" using n(1) new(1) by simp
  moreover have "length (n # new) = length (f # fs)" using new(2) by simp
  moreover have "\<forall>k < length (f # fs). Name ((n # new) ! k) = Name (fused_node ((f # fs) ! k)) \<and>
              OpType ((n # new) ! k) = EPCONTEXT_OP \<and>
              Attributes ((n # new) ! k) = common_attrs emb sdk (Name (fused_node ((f # fs) ! k)))
                                       [MAIN_CONTEXT \<mapsto> AttrInt 0]"
  proof (intro allI impI)
    fix k assume "k < length (f # fs)"
    then show "Name ((n # new) ! k) = Name (fused_node ((f # fs) ! k)) \<and>
              OpType ((n # new) ! k) = EPCONTEXT_OP \<and>
              Attributes ((n # new) ! k) = common_attrs emb sdk (Name (fused_node ((f # fs) ! k)))
                                       [MAIN_CONTEXT \<mapsto> AttrInt 0]"
      using n(2-4) new(3) by (cases k) auto
  qed
  ultimately show ?case using w1 w' by blast
qed

lemma create_ep_node_embed_world:
  "create_ep_node buffer sdk qnn_models cpath True max_size share stop index f g w = (st, g', w')
   \<Longrightarrow> w' = w"
  by (auto simp: create_ep_node_def dump_main_context_def Let_def
           split: option.splits prod.splits status.splits if_splits)

lemma loop_embed_world:
  "CreateEPContextNodes_loop buffer sdk qnn_models cpath True max_size share stop index fs g w = (st, g', w')
   \<Longrightarrow> w' = w"
proof (induction fs arbitrary: index g w)
  case Nil
  then show ?case by simp
next
  case (Cons f fs)
  then show ?case
    by (auto split: prod.splits status.splits dest: create_ep_node_embed_world)
qed

section \<open>The nodes of one invocation\<close>

lemma common_attrs_lookup:
  "common_attrs emb sdk gname m MAIN_CONTEXT = m MAIN_CONTEXT"
  "common_attrs emb sdk gname m EP_CACHE_CONTEXT = m EP_CACHE_CONTEXT"
  "common_attrs emb sdk gname m MAX_SIZE = m MAX_SIZE"
  "common_attrs emb sdk gname m EMBED_MODE = Some (AttrInt (if emb then 1 else 0))"
  by (simp_all add: common_attrs_def attr_names)

lemma attr_names_distinct:
  "EP_CACHE_CONTEXT \<noteq> MAIN_CONTEXT" "MAX_SIZE \<noteq> MAIN_CONTEXT" "MAX_SIZE \<noteq> EP_CACHE_CONTEXT"
  "MAIN_CONTEXT \<noteq> EP_CACHE_CONTEXT" "MAIN_CONTEXT \<noteq> MAX_SIZE" "EP_CACHE_CONTEXT \<noteq> MAX_SIZE"
  "EMBED_MODE \<noteq> EP_CACHE_CONTEXT" "EP_CACHE_CONTEXT \<noteq> EMBED_MODE"
  by (simp_all add: attr_names)

lemma writer_nodes:
  assumes run: "CreateEPContextNodes model buffer sdk (f # rest) qnn cpath emb mx share stop w = (OK, g', w')"
  shows "\<exists>n new. GraphNodes g' = GraphNodes model @ n # new \<and> length new = length rest \<and>
           Name n = Name (fused_node f) \<and> OpType n = EPCONTEXT_OP \<and>
           Attributes n =
             (if emb then common_attrs True sdk (Name (fused_node f))
                            [EP_CACHE_CONTEXT \<mapsto> AttrString buffer]
              else common_attrs False sdk (Name (fused_node f))
                     [EP_CACHE_CONTEXT \<mapsto> AttrString (ctx_cache_name share cpath (Name (fused_node f)) w),
                      MAX_SIZE \<mapsto> AttrInt mx]) \<and>
           (\<forall>k < length rest. Name (new ! k) = Name (fused_node (rest ! k)) \<and>
              OpType (new ! k) = EPCONTEXT_OP \<and>
              Attributes (new ! k) = common_attrs emb sdk (Name (fused_node (rest ! k)))
                                       [MAIN_CONTEXT \<mapsto> AttrInt 0])"
    and "trace w' = trace w @
           (if \<not> emb \<and> (\<not> share \<or> stop)
            then [FsOpenWrite (ctx_bin_path share cpath (Name (fused_node f)) w),
                  FsWrite (ctx_bin_path share cpath (Name (fused_node f)) w) buffer]
            else [])"
    and "files w' =
           (if \<not> emb \<and> (\<not> share \<or> stop)
            then (files w)(ctx_bin_path share cpath (Name (fused_node f)) w \<mapsto>
                   \<lparr>is_regular = True, can_open = True, can_read = True, content = buffer\<rparr>)
            else files w)"
    and "SharedCtxBinFileName w' =
           (if \<not> emb \<and> share
            then (if stop then [] else ctx_cache_name share cpath (Name (fused_node f)) w)
            else SharedCtxBinFileName w)"
proof -
  from run obtain g1 w1 where
    s1: "create_ep_node buffer sdk qnn cpath emb mx share stop 0 f model w = (OK, g1, w1)"
    and s2: "CreateEPContextNodes_loop buffer sdk qnn cpath emb mx share stop (Suc 0) rest g1 w1 = (OK, g', w')"
    by (auto simp: CreateEPContextNodes_def split: prod.splits status.splits)
  from loop_other[OF s2] obtain new where
    w': "w' = w1" and new: "GraphNodes g' = GraphNodes g1 @ new" "length new = length rest"
      "\<forall>k < length rest. Name (new ! k) = Name (fused_node (rest ! k)) \<and>
              OpType (new ! k) = EPCONTEXT_OP \<and>
              Attributes (new ! k) = common_attrs emb sdk (Name (fused_node (rest ! k)))
                                       [MAIN_CONTEXT \<mapsto> AttrInt 0]"
    by blast
  have first: "\<exists>n. GraphNodes g1 = GraphNodes model @ [n] \<and> Name n = Name (fused_node f) \<and>
           OpType n = EPCONTEXT_OP \<and>
           Attributes n =
             (if emb then common_attrs True sdk (Name (fused_node f))
                            [EP_CACHE_CONTEXT \<mapsto> AttrString buffer]
              else common_attrs False sdk (Name (fused_node f))
                     [EP_CACHE_CONTEXT \<mapsto> AttrString (ctx_cache_name share cpath (Name (fused_node f)) w),
                      MAX_SIZE \<mapsto> AttrInt mx])"
  proof (cases emb)
    case True
    with create_ep_node_first_embed[of buffer sdk qnn cpath mx share stop f model w g1 w1] s1
    show ?thesis by auto
  next
    case False
    with create_ep_node_first_external(1)[of buffer sdk qnn cpath mx share stop f model w g1 w1] s1
    show ?thesis by auto
  qed
  then obtain n where n: "GraphNodes g1 = GraphNodes model @ [n]" "Name n = Name (fused_node f)"
      "OpType n = EPCONTEXT_OP"
      "Attributes n =
             (if emb then common_attrs True sdk (Name (fused_node f))
                            [EP_CACHE_CONTEXT \<mapsto> AttrString buffer]
              else common_attrs False sdk (Name (fused_node f))
                     [EP_CACHE_CONTEXT \<mapsto> AttrString (ctx_cache_name share cpath (Name (fused_node f)) w),
                      MAX_SIZE \<mapsto> AttrInt mx])"
    by blast
  have "GraphNodes g' = GraphNodes model @ n # new" using n(1) new(1) by simp
  with n(2-4) new(2,3)
  show "\<exists>n new. GraphNodes g' = GraphNodes model @ n # new \<and> length new = length rest \<and>
           Name n = Name (fused_node f) \<and> OpType n = EPCONTEXT_OP \<and>
           Attributes n =
             (if emb then common_attrs True sdk (Name (fused_node f))
                            [EP_CACHE_CONTEXT \<mapsto> AttrString buffer]
              else common_attrs False sdk (Name (fused_node f))
                     [EP_CACHE_CONTEXT \<mapsto> AttrString (ctx_cache_name share cpath (Name (fused_node f)) w),
                      MAX_SIZE \<mapsto> AttrInt mx]) \<and>
           (\<forall>k < length rest. Name (new ! k) = Name (fused_node (rest ! k)) \<and>
              OpType (new ! k) = EPCONTEXT_OP \<and>
              Attributes (new ! k) = common_attrs emb sdk (Name (fused_node (rest ! k)))
                                       [MAIN_CONTEXT \<mapsto> AttrInt 0])"
    by blast
  show "trace w' = trace w @
           (if \<not> emb \<and> (\<not> share \<or> stop)
            then [FsOpenWrite (ctx_bin_path share cpath (Name (fused_node f)) w),
                  FsWrite (ctx_bin_path share cpath (Name (fused_node f)) w) buffer]
            else [])"
  proof (cases emb)
    case True
    with create_ep_node_first_embed[of buffer sdk qnn cpath mx share stop f model w g1 w1] s1 w'
    show ?thesis by auto
  next
    case False
    with create_ep_node_first_external(2)[of buffer sdk qnn cpath mx share stop f model w g1 w1] s1 w'
    show ?thesis by auto
  qed
  show "files w' =
           (if \<not> emb \<and> (\<not> share \<or> stop)
            then (files w)(ctx_bin_path share cpath (Name (fused_node f)) w \<mapsto>
                   \<lparr>is_regular = True, can_open = True, can_read = True, content = buffer\<rparr>)
            else files w)"
  proof (cases emb)
    case True
    with create_ep_node_first_embed[of buffer sdk qnn cpath mx share stop f model w g1 w1] s1 w'
    show ?thesis by auto
  next
    case False
    with create_ep_node_first_external(3)[of buffer sdk qnn cpath mx share stop f model w g1 w1] s1 w'
    show ?thesis by auto
  qed
  show "SharedCtxBinFileName w' =
           (if \<not> emb \<and> share
            then (if stop then [] else ctx_cache_name share cpath (Name (fused_node f)) w)
            else SharedCtxBinFileName w)"
  proof (cases emb)
    case True
    with create_ep_node_first_embed[of buffer sdk qnn cpath mx share stop f model w g1 w1] s1 w'
    show ?thesis by auto
  next
    case False
    with create_ep_node_first_external(4)[of buffer sdk qnn cpath mx share stop f model w g1 w1] s1 w'
    show ?thesis by auto
  qed
qed

lemma run_external:
  "CreateEPContextNodes graph0 ''blob'' ''v1'' parts2 qnn_models0 ''dir/model.onnx''
       False 7 False False world0 = (OK, fst (snd write_external), snd (snd write_external))"
proof -
  have "fst write_external = OK" by code_simp
  then show ?thesis
    unfolding write_external_def by (metis prod.collapse)
qed

lemma parts2_nonempty: "parts2 \<noteq> []"
  by (simp add: parts2_def)

lemma external_names:
  "ctx_cache_name False ''dir/model.onnx'' (Name (fused_node (hd parts2))) world0 = ''model_0.bin''"
  "ctx_bin_path False ''dir/model.onnx'' (Name (fused_node (hd parts2))) world0 = ''dir/model_0.bin''"
  by code_simp+

text \<open>
  C1, as the code has it. An invocation of the writer that returns OK over one or more
  partitions appends one node per partition. The first node is the main one: it carries
  the payload attribute \<open>ep_cache_context\<close> (the buffer in embed mode, the file name
  otherwise) and no \<open>main_context\<close> attribute; no node is marked \<open>main_context = 1\<close>.
  Every other node is marked \<open>main_context = 0\<close> and carries neither the payload nor the
  sizing attribute. The buffer is stored once at most: inline in embed mode, with no
  file-system call; by one open and one write of the binary file in external mode when
  sharing is off or the invocation is the final one; and not at all by an invocation
  that shares and is not final.
\<close>

theorem writer_main_node_and_payload:
  assumes "CreateEPContextNodes model buffer sdk fs qnn cpath emb mx share stop w = (OK, g', w')"
    and "fs \<noteq> []"
  shows "\<exists>new. GraphNodes g' = GraphNodes model @ new \<and> length new = length fs \<and>
           Attributes (hd new) MAIN_CONTEXT = None \<and>
           Attributes (hd new) EP_CACHE_CONTEXT =
             Some (AttrString (if emb then buffer
                               else ctx_cache_name share cpath (Name (fused_node (hd fs))) w)) \<and>
           (\<forall>n \<in> set (tl new).
              Attributes n MAIN_CONTEXT = Some (AttrInt 0) \<and>
              Attributes n EP_CACHE_CONTEXT = None \<and> Attributes n MAX_SIZE = None) \<and>
           new_events w w' =
             (if \<not> emb \<and> (\<not> share \<or> stop)
              then [FsOpenWrite (ctx_bin_path share cpath (Name (fused_node (hd fs))) w),
                    FsWrite (ctx_bin_path share cpath (Name (fused_node (hd fs))) w) buffer]
              else [])"
proof -
  from assms(2) obtain f rest where fs: "fs = f # rest" by (cases fs) auto
  from writer_nodes[OF assms(1)[unfolded fs]] obtain n new where
    nodes: "GraphNodes g' = GraphNodes model @ n # new" "length new = length rest"
      "Attributes n =
             (if emb then common_attrs True sdk (Name (fused_node f))
                            [EP_CACHE_CONTEXT \<mapsto> AttrString buffer]
              else common_attrs False sdk (Name (fused_node f))
                     [EP_CACHE_CONTEXT \<mapsto> AttrString (ctx_cache_name share cpath (Name (fused_node f)) w),
                      MAX_SIZE \<mapsto> AttrInt mx])"
      "\<forall>k < length rest.
              Attributes (new ! k) = common_attrs emb sdk (Name (fused_node (rest ! k)))
                                       [MAIN_CONTEXT \<mapsto> AttrInt 0]"
    and tr: "trace w' = trace w @
           (if \<not> emb \<and> (\<not> share \<or> stop)
            then [FsOpenWrite (ctx_bin_path share cpath (Name (fused_node f)) w),
                  FsWrite (ctx_bin_path share cpath (Name (fused_node f)) w) buffer]
            else [])"
    by blast
  have others: "Attributes m MAIN_CONTEXT = Some (AttrInt 0) \<and>
              Attributes m EP_CACHE_CONTEXT = None \<and> Attributes m MAX_SIZE = None"
    if "m \<in> set new" for m
  proof -
    from that obtain k where "k < length new" "m = new ! k" by (auto simp: in_set_conv_nth)
    with nodes(2,4) have "Attributes m = common_attrs emb sdk (Name (fused_node (rest ! k)))
                                       [MAIN_CONTEXT \<mapsto> AttrInt 0]" by simp
    then show ?thesis by (simp add: common_attrs_lookup attr_names_distinct)
  qed
  have "Attributes n MAIN_CONTEXT = None"
    using nodes(3) by (simp add: common_attrs_lookup attr_names_distinct)
  moreover have "Attributes n EP_CACHE_CONTEXT =
             Some (AttrString (if emb then buffer
                               else ctx_cache_name share cpath (Name (fused_node f)) w))"
    using nodes(3) by (simp add: common_attrs_lookup attr_names_distinct)
  moreover have "new_events w w' =
             (if \<not> emb \<and> (\<not> share \<or> stop)
              then [FsOpenWrite (ctx_bin_path share cpath (Name (fused_node f)) w),
                    FsWrite (ctx_bin_path share cpath (Name (fused_node f)) w) buffer]
              else [])"
    using tr by (simp add: new_events_def)
  ultimately show ?thesis
    using nodes(1,2) others fs
    by (intro exI[of _ "n # new"]) simp
qed

theorem writer_main_node_and_payload_witness:
  "fst write_external = OK \<and> parts2 \<noteq> [] \<and>
   (\<exists>new. GraphNodes (fst (snd write_external)) = GraphNodes graph0 @ new \<and>
           length new = length parts2 \<and>
           Attributes (hd new) MAIN_CONTEXT = None \<and>
           Attributes (hd new) EP_CACHE_CONTEXT = Some (AttrString ''model_0.bin'') \<and>
           (\<forall>n \<in> set (tl new).
              Attributes n MAIN_CONTEXT = Some (AttrInt 0) \<and>
              Attributes n EP_CACHE_CONTEXT = None \<and> Attributes n MAX_SIZE = None) \<and>
           new_events world0 (snd (snd write_external)) =
             [FsOpenWrite ''dir/model_0.bin'', FsWrite ''dir/model_0.bin'' ''blob''])"
proof -
  have ok: "fst write_external = OK" by code_simp
  from writer_main_node_and_payload[OF run_external parts2_nonempty]
  show ?thesis using ok parts2_nonempty by (simp add: external_names)
qed

text \<open>
  The claim as first stated fails for the first participant of a sharing session: no node
  is marked \<open>main_context = 1\<close>, and the buffer is written nowhere.
\<close>

theorem writer_main_node_and_payload_counterexample:
  "fst write_shared_first = OK
   \<and> map (attr_of MAIN_CONTEXT) (GraphNodes (fst (snd write_shared_first)))
       = [None, Some (AttrInt 0)]
   \<and> map (attr_of EP_CACHE_CONTEXT) (GraphNodes (fst (snd write_shared_first)))
       = [Some (AttrString ''model_0.bin''), None]
   \<and> trace (snd (snd write_shared_first)) = []"
  by code_simp

text \<open>
  C8, as the code has it. After an invocation of the writer that returns OK over one or
  more partitions, the first node carries the sizing attribute \<open>max_size\<close>, with the
  caller's value, in external mode, and does not carry it in embed mode; no other node
  carries it.
\<close>

theorem writer_sizing_attribute:
  assumes "CreateEPContextNodes model buffer sdk fs qnn cpath emb mx share stop w = (OK, g', w')"
    and "fs \<noteq> []"
  shows "\<exists>new. GraphNodes g' = GraphNodes model @ new \<and> length new = length fs \<and>
           Attributes (hd new) MAX_SIZE = (if emb then None else Some (AttrInt mx)) \<and>
           (\<forall>n \<in> set (tl new). Attributes n MAX_SIZE = None)"
proof -
  from assms(2) obtain f rest where fs: "fs = f # rest" by (cases fs) auto
  from writer_nodes(1)[OF assms(1)[unfolded fs]] obtain n new where
    nodes: "GraphNodes g' = GraphNodes model @ n # new" "length new = length rest"
      "Attributes n =
             (if emb then common_attrs True sdk (Name (fused_node f))
                            [EP_CACHE_CONTEXT \<mapsto> AttrString buffer]
              else common_attrs False sdk (Name (fused_node f))
                     [EP_CACHE_CONTEXT \<mapsto> AttrString (ctx_cache_name share cpath (Name (fused_node f)) w),
                      MAX_SIZE \<mapsto> AttrInt mx])"
      "\<forall>k < length rest.
              Attributes (new ! k) = common_attrs emb sdk (Name (fused_node (rest ! k)))
                                       [MAIN_CONTEXT \<mapsto> AttrInt 0]"
    by blast
  have others: "Attributes m MAX_SIZE = None" if "m \<in> set new" for m
  proof -
    from that obtain k where "k < length new" "m = new ! k" by (auto simp: in_set_conv_nth)
    with nodes(2,4) have "Attributes m = common_attrs emb sdk (Name (fused_node (rest ! k)))
                                       [MAIN_CONTEXT \<mapsto> AttrInt 0]" by simp
    then show ?thesis by (simp add: common_attrs_lookup attr_names_distinct)
  qed
  have "Attributes n MAX_SIZE = (if emb then None else Some (AttrInt mx))"
    using nodes(3) by (simp add: common_attrs_lookup attr_names_distinct)
  then show ?thesis
    using nodes(1,2) others fs
    by (intro exI[of _ "n # new"]) simp
qed

theorem writer_sizing_attribute_witness:
  "fst write_external = OK \<and> parts2 \<noteq> [] \<and>
   (\<exists>new. GraphNodes (fst (snd write_external)) = GraphNodes graph0 @ new \<and>
           length new = length parts2 \<and>
           Attributes (hd new) MAX_SIZE = Some (AttrInt 7) \<and>
           (\<forall>n \<in> set (tl new). Attributes n MAX_SIZE = None))"
proof -
  have ok: "fst write_external = OK" by code_simp
  from writer_sizing_attribute[OF run_external parts2_nonempty]
  show ?thesis using ok parts2_nonempty by simp
qed

text \<open>In embed mode no node carries the sizing attribute.\<close>

theorem writer_sizing_attribute_counterexample:
  "fst write_embedded = OK
   \<and> map (attr_of MAX_SIZE) (GraphNodes (fst (snd write_embedded))) = [None, None]
   \<and> map (attr_of EMBED_MODE) (GraphNodes (fst (snd write_embedded)))
       = [Some (AttrInt 1), Some (AttrInt 1)]"
  by code_simp

section \<open>Writing, then loading\<close>

text \<open>
  Read with the default of line 55, none of the nodes an invocation emits is a main
  context: the first node has no \<open>main_context\<close> attribute and the others have 0. The
  default 1 of the attribute belongs to the operator's schema, outside this file.
\<close>

lemma GetMainContextNode_loop_none:
  assumes "\<forall>n \<in> set ns. OpType n = EPCONTEXT_OP \<and> Get_int64 n MAIN_CONTEXT 0 \<noteq> 1"
  shows "GetMainContextNode_loop (map loaded ns) i pos = (OK, pos)"
  using assms by (induction ns arbitrary: i) (auto simp: loaded_def Let_def)

lemma GetMainContextNode_on_written:
  assumes "CreateEPContextNodes model buffer sdk fs qnn cpath emb mx share stop w = (OK, g', w')"
    and "fs \<noteq> []"
  shows "GetMainContextNode (map loaded (drop (length (GraphNodes model)) (GraphNodes g'))) [] =
           (Error FAIL ''Failed to find the EPContext node with main_context=1'', [])"
proof -
  from assms(2) obtain f rest where fs: "fs = f # rest" by (cases fs) auto
  from writer_nodes(1)[OF assms(1)[unfolded fs]] obtain n new where
    nodes: "GraphNodes g' = GraphNodes model @ n # new" "length new = length rest"
      "OpType n = EPCONTEXT_OP"
      "Attributes n =
             (if emb then common_attrs True sdk (Name (fused_node f))
                            [EP_CACHE_CONTEXT \<mapsto> AttrString buffer]
              else common_attrs False sdk (Name (fused_node f))
                     [EP_CACHE_CONTEXT \<mapsto> AttrString (ctx_cache_name share cpath (Name (fused_node f)) w),
                      MAX_SIZE \<mapsto> AttrInt mx])"
      "\<forall>k < length rest. OpType (new ! k) = EPCONTEXT_OP \<and>
              Attributes (new ! k) = common_attrs emb sdk (Name (fused_node (rest ! k)))
                                       [MAIN_CONTEXT \<mapsto> AttrInt 0]"
    by blast
  have n: "Get_int64 n MAIN_CONTEXT 0 \<noteq> 1"
    using nodes(4) by (simp add: Get_int64_def common_attrs_lookup attr_names_distinct)
  have others: "OpType m = EPCONTEXT_OP \<and> Get_int64 m MAIN_CONTEXT 0 \<noteq> 1" if "m \<in> set new" for m
  proof -
    from that obtain k where "k < length new" "m = new ! k" by (auto simp: in_set_conv_nth)
    with nodes(2,5) show ?thesis
      by (simp add: Get_int64_def common_attrs_lookup)
  qed
  have "\<forall>m \<in> set (n # new). OpType m = EPCONTEXT_OP \<and> Get_int64 m MAIN_CONTEXT 0 \<noteq> 1"
    using n nodes(3) others by simp
  then have "GetMainContextNode_loop (map loaded (n # new)) 0 [] = (OK, [])"
    by (rule GetMainContextNode_loop_none)
  then show ?thesis
    by (simp add: GetMainContextNode_def nodes(1) ORT_RETURN_IF_status_def)
qed

lemma filename_bin_nonempty: "filename (p @ ''.bin'') \<noteq> []"
  by (simp add: filename_def)

lemma ctx_cache_name_eq:
  "ctx_cache_name share cpath gname w =
     (if share \<and> SharedCtxBinFileName w \<noteq> [] then SharedCtxBinFileName w
      else filename (context_bin_file_path cpath gname))"
  by (simp add: ctx_cache_name_def shared_ctx_bin_def Let_def)

lemma ctx_cache_name_nonempty: "ctx_cache_name share cpath gname w \<noteq> []"
proof -
  have "filename (context_bin_file_path cpath gname) \<noteq> []"
    unfolding context_bin_file_path_def Let_def
    using filename_bin_nonempty[of "x @ y" for x y] by (metis append.assoc)
  then show ?thesis by (simp add: ctx_cache_name_eq)
qed

text \<open>
  When the model path is a folder, a separator and a file name with an extension, and the
  partition's name leaves no separator in the file name, the file name recorded in the
  node leads from the model's folder back to the file the writer derives.
\<close>

lemma find_last_of_append:
  "find_last_of (xs @ ys) c =
     (case find_last_of ys c of
        Some i \<Rightarrow> Some (length xs + i)
      | None \<Rightarrow> find_last_of xs c)"
  by (induction xs) (auto split: option.splits)

lemma find_last_of_bound: "find_last_of ys c = Some k \<Longrightarrow> k < length ys"
  by (induction ys arbitrary: k) (auto split: option.splits if_splits)

lemma find_last_of_member: "c \<in> set ys \<Longrightarrow> find_last_of ys c \<noteq> None"
  by (induction ys) (auto split: option.splits)

lemma filename_dir:
  assumes "CHR ''/'' \<notin> set f"
  shows "filename (d @ ''/'' @ f) = f"
proof -
  have ns: "\<And>x. x \<in> set (rev f) \<Longrightarrow> x \<noteq> CHR ''/''" using assms by auto
  have "takeWhile (\<lambda>c. c \<noteq> CHR ''/'') (rev f @ CHR ''/'' # rev d) =
          rev f @ takeWhile (\<lambda>c. c \<noteq> CHR ''/'') (CHR ''/'' # rev d)"
    by (rule takeWhile_append2[OF ns])
  then have "takeWhile (\<lambda>c. c \<noteq> CHR ''/'') (rev f @ CHR ''/'' # rev d) = rev f" by simp
  then show ?thesis by (simp add: filename_def)
qed

lemma parent_path_dir:
  assumes "CHR ''/'' \<notin> set f" and "d \<noteq> []" and "last d \<noteq> CHR ''/''"
  shows "parent_path (d @ ''/'' @ f) = d"
proof -
  have "last d \<in> set d" using assms(2) by (rule last_in_set)
  then have "\<exists>x \<in> set (d @ ''/'' @ f). x \<noteq> CHR ''/''" using assms(3) by auto
  then have nall: "\<not> list_all (\<lambda>c. c = CHR ''/'') (d @ ''/'' @ f)"
    unfolding list_all_iff by blast
  have ns: "\<And>x. x \<in> set (rev f) \<Longrightarrow> x \<noteq> CHR ''/''" using assms(1) by auto
  have "dropWhile (\<lambda>c. c \<noteq> CHR ''/'') (rev f @ CHR ''/'' # rev d) =
          dropWhile (\<lambda>c. c \<noteq> CHR ''/'') (CHR ''/'' # rev d)"
    by (rule dropWhile_append2[OF ns])
  then have dw: "dropWhile (\<lambda>c. c \<noteq> CHR ''/'') (rev (d @ ''/'' @ f)) = CHR ''/'' # rev d"
    by simp
  obtain x xs where rd: "rev d = x # xs" using assms(2) by (cases "rev d") auto
  then have "x = last d" using assms(2) by (metis hd_rev list.sel(1))
  then have "x \<noteq> CHR ''/''" using assms(3) by simp
  then have "dropWhile (\<lambda>c. c = CHR ''/'') (x # xs) = x # xs" by simp
  then have dw2: "dropWhile (\<lambda>c. c = CHR ''/'') (rev d) = rev d"
    by (simp only: rd)
  have "parent_path (d @ ''/'' @ f) =
          (let d0 = rev (CHR ''/'' # rev d); d' = rev (dropWhile (\<lambda>c. c = CHR ''/'') (rev d0))
           in if d' = [] then (if d0 = [] then [] else ''/'') else d')"
    unfolding parent_path_def using nall dw by (simp only: if_False)
  also have "\<dots> = d"
  proof -
    have "dropWhile (\<lambda>c. c = CHR ''/'') (rev (rev (CHR ''/'' # rev d))) = rev d"
      using dw2 by simp
    then have "rev (dropWhile (\<lambda>c. c = CHR ''/'') (rev (rev (CHR ''/'' # rev d)))) = d"
      by simp
    then show ?thesis using assms(2) by (simp only: Let_def if_False)
  qed
  finally show ?thesis .
qed

lemma model_folder_leads_to_file:
  assumes cp: "cpath = d @ ''/'' @ base"
    and b1: "CHR ''/'' \<notin> set base" and b2: "CHR ''.'' \<in> set base"
    and d1: "d \<noteq> []" and d2: "last d \<noteq> CHR ''/''"
    and g: "CHR ''/'' \<notin> set (graph_name_in_file gname)"
  shows "path_append (parent_path cpath) (filename (context_bin_file_path cpath gname)) =
           context_bin_file_path cpath gname"
    and "\<not> is_absolute (filename (context_bin_file_path cpath gname))"
    and "parent_path (context_bin_file_path cpath gname) = parent_path cpath"
proof -
  from find_last_of_member[OF b2] obtain k where
    k: "find_last_of base CHR ''.'' = Some k" by blast
  then have kb: "k < length base" by (rule find_last_of_bound)
  have "find_last_of cpath CHR ''.'' = Some (length (d @ ''/'') + k)"
    unfolding cp using k(1) find_last_of_append[of "d @ ''/''" base "CHR ''.''"] by simp
  then have B: "context_bin_file_path cpath gname =
                  d @ ''/'' @ (take k base @ graph_name_in_file gname @ ''.bin'')"
    by (simp add: context_bin_file_path_def cp)
  let ?f = "take k base @ graph_name_in_file gname @ ''.bin''"
  have nf: "CHR ''/'' \<notin> set ?f"
    using b1 g by (auto dest: in_set_takeD)
  have fn: "filename (context_bin_file_path cpath gname) = ?f"
    unfolding B by (rule filename_dir[OF nf])
  have pp: "parent_path cpath = d"
    unfolding cp by (rule parent_path_dir[OF b1 d1 d2])
  have na: "\<not> is_absolute ?f"
    using nf by (cases ?f) (auto simp: is_absolute_def)
  show "path_append (parent_path cpath) (filename (context_bin_file_path cpath gname)) =
           context_bin_file_path cpath gname"
    unfolding fn pp using na d1 d2 by (simp add: path_append_def B)
  show "\<not> is_absolute (filename (context_bin_file_path cpath gname))"
    unfolding fn by (rule na)
  show "parent_path (context_bin_file_path cpath gname) = parent_path cpath"
    unfolding pp B by (rule parent_path_dir[OF nf d1 d2])
qed

text \<open>
  C2, as the code has it. After an invocation of the writer that returns OK over one or
  more partitions, loading the first node it emitted with \<open>GetEpContextFromMainNode\<close>,
  from the world the writer left and with the model path the writer was given, hands the
  backend a buffer equal to the one written, byte for byte, and
  \<open>TryGetMaxSpillFillSize\<close> over that node's position keeps it first. This holds in
  embed mode, and in external mode when the file was written (sharing off, or the final
  invocation), the buffer is not empty, and the file name passes the loader's checks and
  leads from the model's folder to the file written.
\<close>

theorem write_then_load_roundtrip:
  assumes run: "CreateEPContextNodes model buffer sdk fs qnn cpath emb mx share stop w = (OK, g', w')"
    and ne: "fs \<noteq> []"
    and nm: "nm = ctx_cache_name share cpath (Name (fused_node (hd fs))) w"
    and p: "p = ctx_bin_path share cpath (Name (fused_node (hd fs))) w"
    and ext: "emb \<or> ((\<not> share \<or> stop) \<and> buffer \<noteq> [] \<and> \<not> is_absolute nm \<and>
                     find_str nm ''..'' = None \<and> path_append (parent_path cpath) nm = p)"
  shows "GetEpContextFromMainNode be (first_emitted model g') cpath msz w' =
           (be buffer (length buffer) (Name (fused_node (hd fs))) msz,
            w'\<lparr>trace := trace w' @
                 (if emb then []
                  else [FsIsRegularFile p, FsOpenRead p, FsTell p, FsRead p (length buffer)])
                 @ [BackendLoad buffer (length buffer) (Name (fused_node (hd fs))) msz]\<rparr>)
         \<and> TryGetMaxSpillFillSize
             (map loaded (drop (length (GraphNodes model)) (GraphNodes g'))) 1 [0] =
             Some (OK, (if \<not> emb \<and> 0 <s mx then mx else 0), [0])"
proof -
  from ne obtain f rest where fs: "fs = f # rest" by (cases fs) auto
  note wn = writer_nodes[OF run[unfolded fs]]
  from wn(1) obtain n new where
    nodes: "GraphNodes g' = GraphNodes model @ n # new"
      "Name n = Name (fused_node f)" "OpType n = EPCONTEXT_OP"
      "Attributes n =
             (if emb then common_attrs True sdk (Name (fused_node f))
                            [EP_CACHE_CONTEXT \<mapsto> AttrString buffer]
              else common_attrs False sdk (Name (fused_node f))
                     [EP_CACHE_CONTEXT \<mapsto> AttrString (ctx_cache_name share cpath (Name (fused_node f)) w),
                      MAX_SIZE \<mapsto> AttrInt mx])"
    by blast
  have fe: "first_emitted model g' = n" by (simp add: first_emitted_def nodes(1))
  have emb_attr: "Get_bool n EMBED_MODE True = emb"
    using nodes(4) by (simp add: Get_bool_def common_attrs_lookup)
  have load: "GetEpContextFromMainNode be n cpath msz w' =
           (be buffer (length buffer) (Name (fused_node f)) msz,
            w'\<lparr>trace := trace w' @
                 (if emb then []
                  else [FsIsRegularFile p, FsOpenRead p, FsTell p, FsRead p (length buffer)])
                 @ [BackendLoad buffer (length buffer) (Name (fused_node f)) msz]\<rparr>)"
  proof (cases emb)
    case True
    then have "Get_string n EP_CACHE_CONTEXT [] = buffer"
      using nodes(4) by (simp add: Get_string_def common_attrs_lookup)
    with True emb_attr nodes(2,3) show ?thesis
      by (simp add: GetEpContextFromMainNode_def LoadCachedQnnContextFromBuffer_def
            log_event_def Let_def)
  next
    case False
    with ext have e: "\<not> share \<or> stop" "buffer \<noteq> []" "\<not> is_absolute nm"
      "find_str nm ''..'' = None" "path_append (parent_path cpath) nm = p"
      by auto
    have ref: "Get_string n EP_CACHE_CONTEXT [] = nm"
      using nodes(4) False nm fs
      by (simp add: Get_string_def common_attrs_lookup attr_names_distinct)
    have nne: "nm \<noteq> []" unfolding nm by (rule ctx_cache_name_nonempty)
    have fl: "files w' p =
        Some \<lparr>is_regular = True, can_open = True, can_read = True, content = buffer\<rparr>"
      using wn(3) False e(1) p fs by auto
    have "load_cache_file be p (Name n) msz w' =
           (be buffer (length buffer) (Name n) msz,
            w'\<lparr>trace := trace w' @
                 [FsIsRegularFile p, FsOpenRead p, FsTell p, FsRead p (length buffer),
                  BackendLoad buffer (length buffer) (Name n) msz]\<rparr>)"
      using fl e(2)
      by (simp add: load_cache_file_def LoadCachedQnnContextFromBuffer_def log_event_def Let_def)
    with False emb_attr nodes(2,3) ref nne e(3,4,5) show ?thesis
      by (simp add: GetEpContextFromMainNode_def Let_def)
  qed
  have sz: "Get_int64 n MAX_SIZE 0 = (if emb then 0 else mx)"
    using nodes(4) by (simp add: Get_int64_def common_attrs_lookup attr_names_distinct)
  have l1: "TryGetMaxSpillFillSize_loop (map loaded (n # new)) 1 [0] (Suc 0) m k = Some (OK, m, k)"
    for m k
    by (subst TryGetMaxSpillFillSize_loop.simps) simp
  have "TryGetMaxSpillFillSize_loop (map loaded (n # new)) 1 [0] 0 0 0 =
          Some (OK, (if \<not> emb \<and> 0 <s mx then mx else 0), 0)"
    by (subst TryGetMaxSpillFillSize_loop.simps) (simp add: loaded_def sz l1 Let_def)
  then have sel: "TryGetMaxSpillFillSize (map loaded (n # new)) 1 [0] =
             Some (OK, (if \<not> emb \<and> 0 <s mx then mx else 0), [0])"
    by (simp add: TryGetMaxSpillFillSize_def)
  show ?thesis using load sel by (simp add: fe nodes(1) fs)
qed

theorem write_then_load_roundtrip_witness:
  "fst write_external = OK \<and> parts2 \<noteq> [] \<and> ''blob'' \<noteq> [] \<and>
   \<not> is_absolute ''model_0.bin'' \<and> find_str ''model_0.bin'' ''..'' = None \<and>
   path_append (parent_path ''dir/model.onnx'') ''model_0.bin'' = ''dir/model_0.bin'' \<and>
   GetEpContextFromMainNode backend_ok (first_emitted graph0 (fst (snd write_external)))
       ''dir/model.onnx'' 0 (snd (snd write_external)) =
     (backend_ok ''blob'' (length ''blob'') (Name (fused_node (hd parts2))) 0,
      (snd (snd write_external))\<lparr>trace := trace (snd (snd write_external)) @
         [FsIsRegularFile ''dir/model_0.bin'', FsOpenRead ''dir/model_0.bin'',
          FsTell ''dir/model_0.bin'', FsRead ''dir/model_0.bin'' (length ''blob'')]
         @ [BackendLoad ''blob'' (length ''blob'') (Name (fused_node (hd parts2))) 0]\<rparr>) \<and>
   TryGetMaxSpillFillSize
       (map loaded (drop (length (GraphNodes graph0)) (GraphNodes (fst (snd write_external))))) 1 [0]
     = Some (OK, 7, [0])"
proof -
  have ok: "fst write_external = OK" by code_simp
  have h1: "\<not> is_absolute ''model_0.bin''" by code_simp
  have h2: "find_str ''model_0.bin'' ''..'' = None" by code_simp
  have h3: "path_append (parent_path ''dir/model.onnx'') ''model_0.bin'' = ''dir/model_0.bin''"
    by code_simp
  have h4: "(0::64 word) <s 7" by code_simp
  have ext: "False \<or> ((\<not> False \<or> False) \<and> ''blob'' \<noteq> [] \<and> \<not> is_absolute ''model_0.bin'' \<and>
                     find_str ''model_0.bin'' ''..'' = None \<and>
                     path_append (parent_path ''dir/model.onnx'') ''model_0.bin'' = ''dir/model_0.bin'')"
    using h1 h2 h3 by simp
  from write_then_load_roundtrip[OF run_external parts2_nonempty external_names(1)[symmetric]
         external_names(2)[symmetric] ext, of backend_ok 0]
  show ?thesis using ok parts2_nonempty h1 h2 h3 h4 by simp
qed

text \<open>
  The claim as first stated fails for an empty buffer in external mode: the file is
  written with no bytes and the loader rejects it, so the backend receives nothing; and
  \<open>GetMainContextNode\<close> finds no main node among the nodes written. It fails as well
  for the first participant of a sharing session, which writes no file, and for a model
  path whose only dot is in the folder's name, where the file is written beside the
  folder and looked for inside it.
\<close>

theorem write_then_load_roundtrip_counterexample:
  "fst write_empty_blob = OK
   \<and> trace (snd (snd write_empty_blob))
       = [FsOpenWrite ''dir/model_0.bin'', FsWrite ''dir/model_0.bin'' []]
   \<and> fst (GetEpContextFromMainNode backend_ok (first_emitted graph0 (fst (snd write_empty_blob)))
            ''dir/model.onnx'' 0 (snd (snd write_empty_blob)))
       = Error FAIL ''Empty cache file encountered.''
   \<and> filter is_backend_event
        (trace (snd (GetEpContextFromMainNode backend_ok
                       (first_emitted graph0 (fst (snd write_empty_blob)))
                       ''dir/model.onnx'' 0 (snd (snd write_empty_blob))))) = []
   \<and> fst (GetMainContextNode (map loaded (GraphNodes (fst (snd write_empty_blob)))) [])
       = Error FAIL ''Failed to find the EPContext node with main_context=1''
   \<and> fst write_shared_first = OK
   \<and> fst (GetEpContextFromMainNode backend_ok (first_emitted graph0 (fst (snd write_shared_first)))
            ''dir/model.onnx'' 0 (snd (snd write_shared_first)))
       = Error INVALID_GRAPH
           ''The file path in ep_cache_context does not exist or is not accessible.''
   \<and> fst write_dotted_folder = OK
   \<and> trace (snd (snd write_dotted_folder))
       = [FsOpenWrite ''out_0.bin'', FsWrite ''out_0.bin'' ''blob'']
   \<and> trace (snd (GetEpContextFromMainNode backend_ok
                    (first_emitted graph0 (fst (snd write_dotted_folder)))
                    ''out.d/model'' 0 (snd (snd write_dotted_folder))))
       = [FsOpenWrite ''out_0.bin'', FsWrite ''out_0.bin'' ''blob'',
          FsIsRegularFile ''out.d/out_0.bin'']
   \<and> fst (GetEpContextFromMainNode backend_ok
              (first_emitted graph0 (fst (snd write_dotted_folder)))
              ''out.d/model'' 0 (snd (snd write_dotted_folder)))
       = Error INVALID_GRAPH
           ''The file path in ep_cache_context does not exist or is not accessible.''"
  by code_simp

section \<open>The largest sizing value\<close>

lemma loop_invariant:
  assumes "valid_positions fs pos" and "tcs \<le> length pos" and "i \<le> tcs"
    and "\<forall>j<i. size_at fs pos j \<le>s m"
    and "(m = 0 \<and> k = 0) \<or>
         (k < i \<and> size_at fs pos k = m \<and> 0 <s m \<and> (\<forall>j<k. size_at fs pos j <s m))"
  shows "\<exists>m' k'. TryGetMaxSpillFillSize_loop fs tcs pos i m k = Some (OK, m', k') \<and>
           (\<forall>j<tcs. size_at fs pos j \<le>s m') \<and>
           ((m' = 0 \<and> k' = 0) \<or>
            (k' < tcs \<and> size_at fs pos k' = m' \<and> 0 <s m' \<and>
             (\<forall>j<k'. size_at fs pos j <s m')))"
  using assms(3-5)
proof (induction "tcs - i" arbitrary: i m k)
  case 0
  then have "i = tcs" by simp
  then have "TryGetMaxSpillFillSize_loop fs tcs pos i m k = Some (OK, m, k)"
    by (subst TryGetMaxSpillFillSize_loop.simps) simp
  with 0 \<open>i = tcs\<close> show ?case by simp
next
  case (Suc d)
  then have lt: "i < tcs" by simp
  with assms(2) have ilen: "i < length pos" by simp
  with assms(1) have v: "0 \<le> pos ! i" "nat (pos ! i) < length fs"
      "length (filtered_graph (fs ! nat (pos ! i))) = 1"
    by (auto simp: valid_positions_def list_all_length)
  from v(3) obtain n where n: "filtered_graph (fs ! nat (pos ! i)) = [n]"
    by (cases "filtered_graph (fs ! nat (pos ! i))") auto
  then have sz: "size_at fs pos i = Get_int64 n MAX_SIZE 0" by (simp add: size_at_def)
  have m0: "0 \<le>s m" using Suc.prems(3) by (auto simp: word_sle_eq word_sless_alt)
  show ?case
  proof (cases "m <s size_at fs pos i")
    case True
    have step: "TryGetMaxSpillFillSize_loop fs tcs pos i m k =
                TryGetMaxSpillFillSize_loop fs tcs pos (Suc i) (size_at fs pos i) i"
      using lt ilen v n sz True
      by (subst TryGetMaxSpillFillSize_loop.simps) (simp add: Let_def)
    have a: "\<forall>j<Suc i. size_at fs pos j \<le>s size_at fs pos i"
      using Suc.prems(2) True by (auto simp: word_sle_eq word_sless_alt less_Suc_eq)
    have b: "(size_at fs pos i = 0 \<and> i = 0) \<or>
         (i < Suc i \<and> size_at fs pos i = size_at fs pos i \<and> 0 <s size_at fs pos i \<and>
          (\<forall>j<i. size_at fs pos j <s size_at fs pos i))"
      using Suc.prems(2) True m0 by (auto simp: word_sle_eq word_sless_alt)
    have "d = tcs - Suc i" using Suc.hyps(2) by simp
    from Suc.hyps(1)[OF this _ a b] lt step show ?thesis by simp
  next
    case False
    have step: "TryGetMaxSpillFillSize_loop fs tcs pos i m k =
                TryGetMaxSpillFillSize_loop fs tcs pos (Suc i) m k"
      using lt ilen v n sz False
      by (subst TryGetMaxSpillFillSize_loop.simps) (simp add: Let_def)
    have a: "\<forall>j<Suc i. size_at fs pos j \<le>s m"
      using Suc.prems(2) False by (auto simp: word_sle_eq word_sless_alt less_Suc_eq)
    have b: "(m = 0 \<and> k = 0) \<or>
         (k < Suc i \<and> size_at fs pos k = m \<and> 0 <s m \<and> (\<forall>j<k. size_at fs pos j <s m))"
      using Suc.prems(3) by auto
    have "d = tcs - Suc i" using Suc.hyps(2) by simp
    from Suc.hyps(1)[OF this _ a b] lt step show ?thesis by simp
  qed
qed

text \<open>
  C3, as the code has it. When every position is within the list of partitions, every
  filtered graph has its one node and the count is the length of the list of positions,
  \<open>TryGetMaxSpillFillSize\<close> returns OK with the largest sizing value \<open>m\<close> (0 when none is
  positive, in the signed order of int64) and with the entries at place 0 and at place
  \<open>k\<close> of the list exchanged, every other place as it was; \<open>k\<close> is the first place
  holding \<open>m\<close> when \<open>m\<close> is positive, and 0 otherwise.
\<close>

theorem TryGetMaxSpillFillSize_swaps_first_max:
  assumes "valid_positions fs pos" and "tcs = length pos"
  shows "\<exists>m k. TryGetMaxSpillFillSize fs tcs pos =
                  Some (OK, m, (pos[0 := pos ! k])[k := pos ! 0]) \<and>
           (\<forall>j<length pos. size_at fs pos j \<le>s m) \<and>
           ((m = 0 \<and> k = 0) \<or>
            (k < length pos \<and> size_at fs pos k = m \<and> 0 <s m \<and>
             (\<forall>j<k. size_at fs pos j <s m)))"
proof -
  from loop_invariant[OF assms(1), of tcs 0 0 0] assms(2)
  obtain m k where
    l: "TryGetMaxSpillFillSize_loop fs tcs pos 0 0 0 = Some (OK, m, k)"
    and mx: "\<forall>j<length pos. size_at fs pos j \<le>s m"
    and sel: "(m = 0 \<and> k = 0) \<or>
            (k < length pos \<and> size_at fs pos k = m \<and> 0 <s m \<and>
             (\<forall>j<k. size_at fs pos j <s m))"
    by auto
  have "TryGetMaxSpillFillSize fs tcs pos = Some (OK, m, (pos[0 := pos ! k])[k := pos ! 0])"
    using l by (cases "k = 0") (simp_all add: TryGetMaxSpillFillSize_def Let_def)
  with mx sel show ?thesis by blast
qed

theorem TryGetMaxSpillFillSize_swaps_first_max_witness:
  "valid_positions [sized 5, sized 20, sized 3] [0, 1, 2] \<and> (3::nat) = length [0, 1, 2 :: int] \<and>
   (\<exists>m k. TryGetMaxSpillFillSize [sized 5, sized 20, sized 3] 3 [0, 1, 2] =
             Some (OK, m, ([0, 1, 2][0 := [0, 1, 2] ! k])[k := [0, 1, 2] ! 0]) \<and>
           (\<forall>j<length [0, 1, 2 :: int]. size_at [sized 5, sized 20, sized 3] [0, 1, 2] j \<le>s m) \<and>
           ((m = 0 \<and> k = 0) \<or>
            (k < length [0, 1, 2 :: int] \<and> size_at [sized 5, sized 20, sized 3] [0, 1, 2] k = m \<and>
             0 <s m \<and> (\<forall>j<k. size_at [sized 5, sized 20, sized 3] [0, 1, 2] j <s m)))) \<and>
   TryGetMaxSpillFillSize [sized 5, sized 20, sized 3] 3 [0, 1, 2] = Some (OK, 20, [1, 0, 2]) \<and>
   TryGetMaxSpillFillSize [sized 0, sized 0, sized 0] 3 [0, 1, 2] = Some (OK, 0, [0, 1, 2]) \<and>
   TryGetMaxSpillFillSize [sized 4, sized 9, sized 9] 3 [0, 1, 2] = Some (OK, 9, [1, 0, 2])"
proof -
  have v: "valid_positions [sized 5, sized 20, sized 3] [0, 1, 2]" by code_simp
  have l: "(3::nat) = length [0, 1, 2 :: int]" by simp
  have e1: "TryGetMaxSpillFillSize [sized 5, sized 20, sized 3] 3 [0, 1, 2] = Some (OK, 20, [1, 0, 2])"
    by code_simp
  have e2: "TryGetMaxSpillFillSize [sized 0, sized 0, sized 0] 3 [0, 1, 2] = Some (OK, 0, [0, 1, 2])"
    by code_simp
  have e3: "TryGetMaxSpillFillSize [sized 4, sized 9, sized 9] 3 [0, 1, 2] = Some (OK, 9, [1, 0, 2])"
    by code_simp
  from TryGetMaxSpillFillSize_swaps_first_max[OF v l] v l e1 e2 e3
  show ?thesis by blast
qed

text \<open>
  The claim as first stated fails when the largest value is at place 2: the entries 0
  and 1 that are left come out in the order 1, 0. It fails as well when every value is
  negative: place 0 is kept though the largest value is elsewhere.
\<close>

theorem TryGetMaxSpillFillSize_order_counterexample:
  "TryGetMaxSpillFillSize [sized 1, sized 2, sized 3] 3 [0, 1, 2] = Some (OK, 3, [2, 1, 0])
   \<and> remove1 2 [2, 1, 0 :: int] = [1, 0] \<and> remove1 2 [0, 1, 2 :: int] = [0, 1]
   \<and> TryGetMaxSpillFillSize [sized (- 5), sized (- 3)] 2 [0, 1] = Some (OK, 0, [0, 1])
   \<and> (- 5 :: 64 word) <s - 3"
  by code_simp

section \<open>The path checks of the loader\<close>

lemma find_str_iff: "find_str s pat \<noteq> None \<longleftrightarrow> (\<exists>a b. s = a @ pat @ b)"
proof (induction s)
  case Nil
  then show ?case by auto
next
  case (Cons c cs)
  show ?case
  proof (cases "prefix pat (c # cs)")
    case True
    then obtain b where "c # cs = pat @ b" by (auto simp: prefix_def)
    then have "c # cs = [] @ pat @ b" by simp
    then have "\<exists>a b. c # cs = a @ pat @ b" by blast
    with True show ?thesis by simp
  next
    case False
    have "(\<exists>a b. c # cs = a @ pat @ b) \<longleftrightarrow> (\<exists>a b. cs = a @ pat @ b)"
    proof
      assume "\<exists>a b. c # cs = a @ pat @ b"
      then obtain a b where ab: "c # cs = a @ pat @ b" by blast
      show "\<exists>a b. cs = a @ pat @ b"
      proof (cases a)
        case Nil
        with ab have "prefix pat (c # cs)" by (simp add: prefix_def)
        with False show ?thesis by simp
      next
        case (Cons x a')
        with ab have "cs = a' @ pat @ b" by simp
        then show ?thesis by blast
      qed
    next
      assume "\<exists>a b. cs = a @ pat @ b"
      then obtain a b where "cs = a @ pat @ b" by blast
      then have "c # cs = (c # a) @ pat @ b" by simp
      then show "\<exists>a b. c # cs = a @ pat @ b" by blast
    qed
    with False Cons.IH show ?thesis by simp
  qed
qed

text \<open>
  C4, as the code has it (the build without \<open>_WIN32\<close>). For a node in external mode
  whose reference is \<open>ref\<close>: an empty reference fails with an error of its own; a
  reference that starts with the separator fails with the absolute-path error; a
  reference that contains the text \<open>..\<close> anywhere fails, and the world is untouched;
  any other reference is joined to the folder of the model file, and the first
  file-system call is made at the joined path.
\<close>

theorem external_reference_resolution:
  assumes "EPCONTEXT_OP = OpType n" and "\<not> Get_bool n EMBED_MODE True"
    and "Get_string n EP_CACHE_CONTEXT [] = ref"
  shows "(ref = [] \<longrightarrow>
            GetEpContextFromMainNode be n ctx_onnx_model_path max_spill_fill_size w =
              (Error FAIL ''The file path in ep_cache_context should not be empty.'', w))
       \<and> ((\<exists>cs. ref = CHR ''/'' # cs) \<longrightarrow>
            GetEpContextFromMainNode be n ctx_onnx_model_path max_spill_fill_size w =
              (Error FAIL
                 (''External mode should set ep_cache_context field with a relative path, but it is an absolute path: ''
                  @ ref), w))
       \<and> ((\<exists>a b. ref = a @ ''..'' @ b) \<longrightarrow>
            \<not> IsOK (fst (GetEpContextFromMainNode be n ctx_onnx_model_path max_spill_fill_size w))
            \<and> snd (GetEpContextFromMainNode be n ctx_onnx_model_path max_spill_fill_size w) = w)
       \<and> ((\<exists>a b. ref = a @ ''..'' @ b) \<and> \<not> (\<exists>cs. ref = CHR ''/'' # cs) \<longrightarrow>
            GetEpContextFromMainNode be n ctx_onnx_model_path max_spill_fill_size w =
              (Error INVALID_GRAPH
                 ''The file path in ep_cache_context field has '..'. It's not allowed to point outside the directory.'',
               w))
       \<and> (ref \<noteq> [] \<and> \<not> (\<exists>cs. ref = CHR ''/'' # cs) \<and> \<not> (\<exists>a b. ref = a @ ''..'' @ b) \<longrightarrow>
            GetEpContextFromMainNode be n ctx_onnx_model_path max_spill_fill_size w =
              load_cache_file be (path_append (parent_path ctx_onnx_model_path) ref) (Name n)
                max_spill_fill_size w
            \<and> path_append (parent_path ctx_onnx_model_path) ref =
                parent_path ctx_onnx_model_path
                @ (if parent_path ctx_onnx_model_path \<noteq> [] \<and>
                      last (parent_path ctx_onnx_model_path) \<noteq> CHR ''/'' then ''/'' else [])
                @ ref
            \<and> prefix (trace w @ [FsIsRegularFile (path_append (parent_path ctx_onnx_model_path) ref)])
                 (trace (snd (GetEpContextFromMainNode be n ctx_onnx_model_path
                                max_spill_fill_size w))))"
proof -
  have abs: "is_absolute ref \<longleftrightarrow> (\<exists>cs. ref = CHR ''/'' # cs)"
    by (auto simp: is_absolute_def split: list.splits)
  have dd: "find_str ref ''..'' \<noteq> None \<longleftrightarrow> (\<exists>a b. ref = a @ ''..'' @ b)"
    by (rule find_str_iff)
  have dd_ne: "(\<exists>a b. ref = a @ ''..'' @ b) \<Longrightarrow> ref \<noteq> []" by auto
  have tr: "prefix (trace w @ [FsIsRegularFile p]) (trace (snd (load_cache_file be p nm m w)))"
    for p nm m
    by (auto simp: load_cache_file_def log_event_def Let_def ORT_RETURN_IF_status_def
          LoadCachedQnnContextFromBuffer_def prefix_def split: option.splits)
  have c1: "ref = [] \<longrightarrow>
            GetEpContextFromMainNode be n ctx_onnx_model_path max_spill_fill_size w =
              (Error FAIL ''The file path in ep_cache_context should not be empty.'', w)"
    using assms by (simp add: GetEpContextFromMainNode_def ORT_RETURN_IF_status_def)
  have c2: "(\<exists>cs. ref = CHR ''/'' # cs) \<longrightarrow>
            GetEpContextFromMainNode be n ctx_onnx_model_path max_spill_fill_size w =
              (Error FAIL
                 (''External mode should set ep_cache_context field with a relative path, but it is an absolute path: ''
                  @ ref), w)"
    using assms unfolding abs[symmetric]
    by (auto simp: GetEpContextFromMainNode_def ORT_RETURN_IF_status_def is_absolute_def)
  have c4: "(\<exists>a b. ref = a @ ''..'' @ b) \<and> \<not> (\<exists>cs. ref = CHR ''/'' # cs) \<longrightarrow>
            GetEpContextFromMainNode be n ctx_onnx_model_path max_spill_fill_size w =
              (Error INVALID_GRAPH
                 ''The file path in ep_cache_context field has '..'. It's not allowed to point outside the directory.'',
               w)"
    using assms dd_ne unfolding abs[symmetric] dd[symmetric]
    by (auto simp: GetEpContextFromMainNode_def Let_def)
  have c3: "(\<exists>a b. ref = a @ ''..'' @ b) \<longrightarrow>
            \<not> IsOK (fst (GetEpContextFromMainNode be n ctx_onnx_model_path max_spill_fill_size w))
            \<and> snd (GetEpContextFromMainNode be n ctx_onnx_model_path max_spill_fill_size w) = w"
    using c2 c4 by (cases "\<exists>cs. ref = CHR ''/'' # cs") (auto simp: IsOK_def)
  have c5a: "ref \<noteq> [] \<and> \<not> (\<exists>cs. ref = CHR ''/'' # cs) \<and> \<not> (\<exists>a b. ref = a @ ''..'' @ b) \<longrightarrow>
            GetEpContextFromMainNode be n ctx_onnx_model_path max_spill_fill_size w =
              load_cache_file be (path_append (parent_path ctx_onnx_model_path) ref) (Name n)
                max_spill_fill_size w"
    using assms unfolding abs[symmetric] dd[symmetric]
    by (auto simp: GetEpContextFromMainNode_def Let_def)
  have c5b: "\<not> (\<exists>cs. ref = CHR ''/'' # cs) \<longrightarrow>
            path_append (parent_path ctx_onnx_model_path) ref =
                parent_path ctx_onnx_model_path
                @ (if parent_path ctx_onnx_model_path \<noteq> [] \<and>
                      last (parent_path ctx_onnx_model_path) \<noteq> CHR ''/'' then ''/'' else [])
                @ ref"
    unfolding abs[symmetric] by (simp add: path_append_def)
  show ?thesis
    using c1 c2 c3 c4 c5a c5b tr by presburger
qed

theorem external_reference_resolution_witness:
  "EPCONTEXT_OP = OpType (external_node ''model_part.bin'')
   \<and> \<not> Get_bool (external_node ''model_part.bin'') EMBED_MODE True
   \<and> Get_string (external_node ''model_part.bin'') EP_CACHE_CONTEXT [] = ''model_part.bin''
   \<and> GetEpContextFromMainNode backend_ok (external_node ''model_part.bin'')
        ''base_dir/model.onnx'' 0 world0 =
       load_cache_file backend_ok ''base_dir/model_part.bin'' ''ctx'' 0 world0
   \<and> path_append (parent_path ''base_dir/model.onnx'') ''model_part.bin''
       = ''base_dir/model_part.bin''
   \<and> GetEpContextFromMainNode backend_ok (external_node ''/etc/passwd'')
        ''base_dir/model.onnx'' 0 world0 =
       (Error FAIL
          ''External mode should set ep_cache_context field with a relative path, but it is an absolute path: /etc/passwd'',
        world0)
   \<and> GetEpContextFromMainNode backend_ok (external_node ''sub/../x.bin'')
        ''base_dir/model.onnx'' 0 world0 =
       (Error INVALID_GRAPH
          ''The file path in ep_cache_context field has '..'. It's not allowed to point outside the directory.'',
        world0)"
proof -
  have a: "EPCONTEXT_OP = OpType (external_node r)" for r
    by (simp add: external_node_def mk_node_def)
  have b: "\<not> Get_bool (external_node r) EMBED_MODE True" for r
    by (simp add: external_node_def mk_node_def Get_bool_def attr_names)
  have c: "Get_string (external_node r) EP_CACHE_CONTEXT [] = r" for r
    by (simp add: external_node_def mk_node_def Get_string_def attr_names)
  have d: "find_str ''model_part.bin'' ''..'' = None" by code_simp
  have d': "\<not> (\<exists>a b. ''model_part.bin'' = a @ ''..'' @ b)"
    using d find_str_iff[of "''model_part.bin''" "''..''"] by simp
  have e: "path_append (parent_path ''base_dir/model.onnx'') ''model_part.bin''
             = ''base_dir/model_part.bin''" by code_simp
  have f: "Name (external_node ''model_part.bin'') = ''ctx''" by code_simp
  from external_reference_resolution[where n = "external_node ''model_part.bin''" and ref = "''model_part.bin''"
         and be = backend_ok and ctx_onnx_model_path = "''base_dir/model.onnx''"
         and max_spill_fill_size = 0 and w = world0, OF a b c] d'
  have r1: "GetEpContextFromMainNode backend_ok (external_node ''model_part.bin'')
        ''base_dir/model.onnx'' 0 world0 =
       load_cache_file backend_ok (path_append (parent_path ''base_dir/model.onnx'') ''model_part.bin'')
         (Name (external_node ''model_part.bin'')) 0 world0"
    by simp
  from external_reference_resolution[where n = "external_node ''/etc/passwd''" and ref = "''/etc/passwd''"
         and be = backend_ok and ctx_onnx_model_path = "''base_dir/model.onnx''"
         and max_spill_fill_size = 0 and w = world0, OF a b c]
  have r2: "GetEpContextFromMainNode backend_ok (external_node ''/etc/passwd'')
        ''base_dir/model.onnx'' 0 world0 =
       (Error FAIL
          ''External mode should set ep_cache_context field with a relative path, but it is an absolute path: /etc/passwd'',
        world0)"
    by simp
  have "''sub/../x.bin'' = ''sub/'' @ ''..'' @ ''/x.bin''" by simp
  then have g: "\<exists>a b. ''sub/../x.bin'' = a @ ''..'' @ b" by blast
  from external_reference_resolution[where n = "external_node ''sub/../x.bin''" and ref = "''sub/../x.bin''"
         and be = backend_ok and ctx_onnx_model_path = "''base_dir/model.onnx''"
         and max_spill_fill_size = 0 and w = world0, OF a b c] g
  have r3: "GetEpContextFromMainNode backend_ok (external_node ''sub/../x.bin'')
        ''base_dir/model.onnx'' 0 world0 =
       (Error INVALID_GRAPH
          ''The file path in ep_cache_context field has '..'. It's not allowed to point outside the directory.'',
        world0)"
    by simp
  from a b c e f r1 r2 r3 show ?thesis by simp
qed

text \<open>
  The claim as first stated fails for the empty reference: it is not absolute and has no
  \<open>..\<close>, and it is refused, with no file-system call at the joined path.
\<close>

theorem external_reference_resolution_counterexample:
  "Get_string (external_node []) EP_CACHE_CONTEXT [] = []
   \<and> \<not> is_absolute [] \<and> find_str [] ''..'' = None
   \<and> fst (GetEpContextFromMainNode backend_ok (external_node []) ''base_dir/model.onnx'' 0 world0)
       = Error FAIL ''The file path in ep_cache_context should not be empty.''
   \<and> trace (snd (GetEpContextFromMainNode backend_ok (external_node [])
                    ''base_dir/model.onnx'' 0 world0)) = []
   \<and> trace (snd (load_cache_file backend_ok
                    (path_append (parent_path ''base_dir/model.onnx'') []) ''ctx'' 0 world0))
       = [FsIsRegularFile ''base_dir/'']"
  by code_simp

section \<open>Error categories, empty files and embed mode\<close>

text \<open>
  C5. With exactly one node in the filtered graph, \<open>LoadQnnCtxFromOnnxGraph\<close> returns
  OK exactly when \<open>GetEpContextFromMainNode\<close> does, and every failure of the latter as
  \<open>INVALID_GRAPH\<close>. With no node, or with more than one, the check of line 185 returns
  before the translation of lines 190 to 193, with the category of \<open>ORT_RETURN_IF\<close>.
\<close>

theorem LoadQnnCtxFromOnnxGraph_categories:
  "fst (LoadQnnCtxFromOnnxGraph be [n] ctx_onnx_model_path max_spill_fill_size w) =
     (if fst (GetEpContextFromMainNode be n ctx_onnx_model_path max_spill_fill_size w) = OK then OK
      else Error INVALID_GRAPH
             (''Failed to load from EpContext model. '' @
              ErrorMessage (fst (GetEpContextFromMainNode be n ctx_onnx_model_path
                                   max_spill_fill_size w))))
   \<and> LoadQnnCtxFromOnnxGraph be [] ctx_onnx_model_path max_spill_fill_size w =
       (Error FAIL ''One filtered graph should has only one EPContext node!'', w)
   \<and> LoadQnnCtxFromOnnxGraph be (n1 # n2 # ns) ctx_onnx_model_path max_spill_fill_size w =
       (Error FAIL ''One filtered graph should has only one EPContext node!'', w)"
  by (simp add: LoadQnnCtxFromOnnxGraph_def ORT_RETURN_IF_status_def IsOK_def split: prod.splits)

theorem LoadQnnCtxFromOnnxGraph_categories_witness:
  "LoadQnnCtxFromOnnxGraph backend_ok [] ''dir/model.onnx'' 0 world0 =
     (Error FAIL ''One filtered graph should has only one EPContext node!'', world0)
   \<and> fst (LoadQnnCtxFromOnnxGraph backend_ok [external_node []] ''dir/model.onnx'' 0 world0) =
       Error INVALID_GRAPH
         ''Failed to load from EpContext model. The file path in ep_cache_context should not be empty.''
   \<and> fst (LoadQnnCtxFromOnnxGraph backend_ok [embedded_node ''blob''] ''dir/model.onnx'' 0 world0) = OK"
proof -
  have a: "fst (GetEpContextFromMainNode backend_ok (external_node []) ''dir/model.onnx'' 0 world0) =
             Error FAIL ''The file path in ep_cache_context should not be empty.''"
    by code_simp
  have b: "fst (GetEpContextFromMainNode backend_ok (embedded_node ''blob'') ''dir/model.onnx'' 0 world0) = OK"
    by code_simp
  from LoadQnnCtxFromOnnxGraph_categories[of backend_ok "external_node []" "''dir/model.onnx''" 0 world0]
       LoadQnnCtxFromOnnxGraph_categories[of backend_ok "embedded_node ''blob''" "''dir/model.onnx''" 0 world0]
       a b
  show ?thesis by simp
qed

text \<open>
  C6. In external mode, when the reference passes the path checks and the file at the
  joined path is a regular file that opens and has no bytes, \<open>GetEpContextFromMainNode\<close>
  fails with the message of the empty cache file. The calls made are the check of the
  file, its opening and the reading of its size: no read of the contents and no call of
  the backend.
\<close>

theorem empty_cache_file_error:
  assumes "EPCONTEXT_OP = OpType n" and "\<not> Get_bool n EMBED_MODE True"
    and "Get_string n EP_CACHE_CONTEXT [] = ref"
    and "ref \<noteq> []" and "\<not> is_absolute ref" and "find_str ref ''..'' = None"
    and "path_append (parent_path ctx_onnx_model_path) ref = p"
    and "files w p = Some f" and "is_regular f" and "can_open f" and "content f = []"
  shows "GetEpContextFromMainNode be n ctx_onnx_model_path max_spill_fill_size w =
           (Error FAIL ''Empty cache file encountered.'',
            w\<lparr>trace := trace w @ [FsIsRegularFile p, FsOpenRead p, FsTell p]\<rparr>)
         \<and> list_all (\<lambda>e. \<not> is_read_event e \<and> \<not> is_backend_event e)
              [FsIsRegularFile p, FsOpenRead p, FsTell p]"
  using assms
  by (simp add: GetEpContextFromMainNode_def load_cache_file_def log_event_def Let_def
        ORT_RETURN_IF_status_def)

theorem empty_cache_file_error_witness:
  "EPCONTEXT_OP = OpType (external_node ''model_0.bin'')
   \<and> \<not> Get_bool (external_node ''model_0.bin'') EMBED_MODE True
   \<and> Get_string (external_node ''model_0.bin'') EP_CACHE_CONTEXT [] = ''model_0.bin''
   \<and> \<not> is_absolute ''model_0.bin'' \<and> find_str ''model_0.bin'' ''..'' = None
   \<and> path_append (parent_path ''dir/model.onnx'') ''model_0.bin'' = ''dir/model_0.bin''
   \<and> files world_empty_file ''dir/model_0.bin'' =
        Some \<lparr>is_regular = True, can_open = True, can_read = True, content = []\<rparr>
   \<and> GetEpContextFromMainNode backend_ok (external_node ''model_0.bin'') ''dir/model.onnx'' 0
        world_empty_file =
       (Error FAIL ''Empty cache file encountered.'',
        world_empty_file\<lparr>trace := trace world_empty_file @
           [FsIsRegularFile ''dir/model_0.bin'', FsOpenRead ''dir/model_0.bin'',
            FsTell ''dir/model_0.bin'']\<rparr>)"
proof -
  have a: "EPCONTEXT_OP = OpType (external_node ''model_0.bin'')" by code_simp
  have b: "\<not> Get_bool (external_node ''model_0.bin'') EMBED_MODE True" by code_simp
  have c: "Get_string (external_node ''model_0.bin'') EP_CACHE_CONTEXT [] = ''model_0.bin''"
    by code_simp
  have d: "''model_0.bin'' \<noteq> []" by simp
  have e: "\<not> is_absolute ''model_0.bin''" by code_simp
  have f: "find_str ''model_0.bin'' ''..'' = None" by code_simp
  have g: "path_append (parent_path ''dir/model.onnx'') ''model_0.bin'' = ''dir/model_0.bin''"
    by code_simp
  have h: "files world_empty_file ''dir/model_0.bin'' =
        Some \<lparr>is_regular = True, can_open = True, can_read = True, content = []\<rparr>"
    by (simp add: world_empty_file_def)
  from empty_cache_file_error[OF a b c d e f g h, of backend_ok 0] a b c e f g h
  show ?thesis by simp
qed

section \<open>Sessions that share one binary file\<close>

lemma call_name_nonempty: "call_name c \<noteq> []"
  using ctx_cache_name_nonempty[of False "call_path c" "Name (fused_node (hd (call_fused c)))" w]
  by (simp add: ctx_cache_name_eq call_name_def)

lemma invoke_shared:
  assumes "invoke c w = (OK, g', w')"
    and "call_share c" and "\<not> call_embed c" and "call_fused c \<noteq> []"
  shows "Attributes (first_emitted (call_model c) g') EP_CACHE_CONTEXT =
           Some (AttrString (if SharedCtxBinFileName w = [] then call_name c
                             else SharedCtxBinFileName w))"
    and "SharedCtxBinFileName w' =
           (if call_stop c then []
            else if SharedCtxBinFileName w = [] then call_name c else SharedCtxBinFileName w)"
    and "new_events w w' =
           (if call_stop c
            then [FsOpenWrite (ctx_bin_path True (call_path c) (Name (fused_node (hd (call_fused c)))) w),
                  FsWrite (ctx_bin_path True (call_path c) (Name (fused_node (hd (call_fused c)))) w)
                    (call_buffer c)]
            else [])"
    and "call_name c \<noteq> []"
proof -
  from assms(4) obtain f rest where fs: "call_fused c = f # rest" by (cases "call_fused c") auto
  note run = assms(1)[unfolded invoke_def fs]
  from writer_nodes(1)[OF run] assms(3) obtain n new where
    nodes: "GraphNodes g' = GraphNodes (call_model c) @ n # new"
      "Attributes n = common_attrs False (call_sdk c) (Name (fused_node f))
           [EP_CACHE_CONTEXT \<mapsto> AttrString (ctx_cache_name (call_share c) (call_path c) (Name (fused_node f)) w),
            MAX_SIZE \<mapsto> AttrInt (call_max_size c)]"
    by auto
  have fe: "first_emitted (call_model c) g' = n"
    by (simp add: first_emitted_def nodes(1))
  show "Attributes (first_emitted (call_model c) g') EP_CACHE_CONTEXT =
           Some (AttrString (if SharedCtxBinFileName w = [] then call_name c
                             else SharedCtxBinFileName w))"
    unfolding fe nodes(2) using assms(2)
    by (simp add: common_attrs_lookup attr_names_distinct ctx_cache_name_eq call_name_def fs)
  show "SharedCtxBinFileName w' =
           (if call_stop c then []
            else if SharedCtxBinFileName w = [] then call_name c else SharedCtxBinFileName w)"
    using writer_nodes(4)[OF run] assms(2,3)
    by (simp add: ctx_cache_name_eq call_name_def fs)
  show "new_events w w' =
           (if call_stop c
            then [FsOpenWrite (ctx_bin_path True (call_path c) (Name (fused_node (hd (call_fused c)))) w),
                  FsWrite (ctx_bin_path True (call_path c) (Name (fused_node (hd (call_fused c)))) w)
                    (call_buffer c)]
            else [])"
    using writer_nodes(2)[OF run] assms(2,3)
    by (simp add: new_events_def fs)
  show "call_name c \<noteq> []"
    using ctx_cache_name_nonempty[of False "call_path c" "Name (fused_node (hd (call_fused c)))" w]
    by (simp add: ctx_cache_name_eq call_name_def)
qed

lemma session_nonfinal:
  assumes "run_session cs w = (rs, w')"
    and "\<forall>c \<in> set cs. call_share c \<and> \<not> call_embed c \<and> call_fused c \<noteq> [] \<and> \<not> call_stop c"
    and "\<forall>r \<in> set rs. fst r = OK"
    and "N = (if SharedCtxBinFileName w = [] then call_name (hd cs) else SharedCtxBinFileName w)"
  shows "length rs = length cs \<and>
         (\<forall>i < length cs.
            Attributes (first_emitted (call_model (cs ! i)) (fst (snd (rs ! i)))) EP_CACHE_CONTEXT
              = Some (AttrString N) \<and>
            snd (snd (rs ! i)) = []) \<and>
         SharedCtxBinFileName w' = (if cs = [] then SharedCtxBinFileName w else N)"
  using assms
proof (induction cs arbitrary: w rs N)
  case Nil
  then show ?case by simp
next
  case (Cons c cs)
  from Cons.prems(1) obtain st g1 w1 rs1 where
    inv: "invoke c w = (st, g1, w1)" and rest: "run_session cs w1 = (rs1, w')"
    and rs: "rs = (st, g1, new_events w w1) # rs1"
    by (auto split: prod.splits)
  from Cons.prems(3) rs have st: "st = OK" and ok1: "\<forall>r \<in> set rs1. fst r = OK" by auto
  from Cons.prems(2) have c: "call_share c" "\<not> call_embed c" "call_fused c \<noteq> []" "\<not> call_stop c"
    and cs: "\<forall>c \<in> set cs. call_share c \<and> \<not> call_embed c \<and> call_fused c \<noteq> [] \<and> \<not> call_stop c"
    by auto
  note i = invoke_shared[OF inv[unfolded st] c(1-3)]
  have N: "N = (if SharedCtxBinFileName w = [] then call_name c else SharedCtxBinFileName w)"
    using Cons.prems(4) by simp
  have sh1: "SharedCtxBinFileName w1 = N" using i(2) c(4) N by simp
  have Nne: "N \<noteq> []" using N i(4) by auto
  have N1: "N = (if SharedCtxBinFileName w1 = [] then call_name (hd cs) else SharedCtxBinFileName w1)"
    using sh1 Nne by simp
  from Cons.IH[OF rest cs ok1 N1] have ih:
    "length rs1 = length cs"
    "\<forall>i < length cs.
            Attributes (first_emitted (call_model (cs ! i)) (fst (snd (rs1 ! i)))) EP_CACHE_CONTEXT
              = Some (AttrString N) \<and>
            snd (snd (rs1 ! i)) = []"
    "SharedCtxBinFileName w' = (if cs = [] then SharedCtxBinFileName w1 else N)"
    by auto
  have head: "Attributes (first_emitted (call_model c) g1) EP_CACHE_CONTEXT = Some (AttrString N)"
    "new_events w w1 = []"
    using i(1,3) c(4) N by auto
  have all: "\<forall>i < length (c # cs).
            Attributes (first_emitted (call_model ((c # cs) ! i)) (fst (snd (rs ! i)))) EP_CACHE_CONTEXT
              = Some (AttrString N) \<and>
            snd (snd (rs ! i)) = []"
  proof (intro allI impI)
    fix i assume "i < length (c # cs)"
    then show "Attributes (first_emitted (call_model ((c # cs) ! i)) (fst (snd (rs ! i)))) EP_CACHE_CONTEXT
              = Some (AttrString N) \<and>
            snd (snd (rs ! i)) = []"
      using head ih(2) rs by (cases i) auto
  qed
  show ?case using all ih(1,3) sh1 rs by auto
qed

lemma run_session_append:
  "run_session (xs @ ys) w =
     (case run_session xs w of
        (r1, w1) \<Rightarrow> (case run_session ys w1 of (r2, w2) \<Rightarrow> (r1 @ r2, w2)))"
  by (induction xs arbitrary: w) (auto split: prod.splits)

lemma ctx_bin_path_eq:
  "ctx_bin_path share cpath gname w =
     (if share \<and> SharedCtxBinFileName w \<noteq> []
      then parent_path (context_bin_file_path cpath gname) @ ''/'' @ SharedCtxBinFileName w
      else context_bin_file_path cpath gname)"
  by (simp add: ctx_bin_path_def shared_ctx_bin_def Let_def)

lemma filename_no_sep: "CHR ''/'' \<notin> set (filename p)"
proof
  assume "CHR ''/'' \<in> set (filename p)"
  then have "CHR ''/'' \<in> set (takeWhile (\<lambda>c. c \<noteq> CHR ''/'') (rev p))"
    by (simp add: filename_def)
  then show False by (auto dest: set_takeWhileD)
qed

lemma invoke_shared_files:
  assumes "invoke c w = (OK, g', w')"
    and "call_share c" and "\<not> call_embed c" and "call_fused c \<noteq> []"
  shows "files w' =
           (if call_stop c
            then (files w)(ctx_bin_path True (call_path c) (Name (fused_node (hd (call_fused c)))) w
                   \<mapsto> written_file (call_buffer c))
            else files w)"
proof -
  from assms(4) obtain f rest where fs: "call_fused c = f # rest" by (cases "call_fused c") auto
  note run = assms(1)[unfolded invoke_def fs]
  show ?thesis
    using writer_nodes(3)[OF run] assms(2,3) by (simp add: fs written_file_def)
qed

lemma session_nonfinal_files:
  assumes "run_session cs w = (rs, w')"
    and "\<forall>c \<in> set cs. call_share c \<and> \<not> call_embed c \<and> call_fused c \<noteq> [] \<and> \<not> call_stop c"
    and "\<forall>r \<in> set rs. fst r = OK"
  shows "files w' = files w"
  using assms
proof (induction cs arbitrary: w rs)
  case Nil
  then show ?case by simp
next
  case (Cons c cs)
  from Cons.prems(1) obtain st g1 w1 rs1 where
    inv: "invoke c w = (st, g1, w1)" and rest: "run_session cs w1 = (rs1, w')"
    and rs: "rs = (st, g1, new_events w w1) # rs1"
    by (auto split: prod.splits)
  from Cons.prems(3) rs have st: "st = OK" and ok1: "\<forall>r \<in> set rs1. fst r = OK" by auto
  from Cons.prems(2) have c: "call_share c" "\<not> call_embed c" "call_fused c \<noteq> []" "\<not> call_stop c"
    and cs: "\<forall>c \<in> set cs. call_share c \<and> \<not> call_embed c \<and> call_fused c \<noteq> [] \<and> \<not> call_stop c"
    by auto
  have "files w1 = files w"
    using invoke_shared_files[OF inv[unfolded st] c(1-3)] c(4) by simp
  moreover have "files w' = files w1" by (rule Cons.IH[OF rest cs ok1])
  ultimately show ?case by simp
qed

text \<open>
  C7. A session of invocations in external mode that all share, start from an empty
  shared file name, each have a partition and return OK, and of which the last one and
  only the last one is final. Every invocation's first node refers to the file name that
  the first invocation computed. No invocation but the last makes a file-system call; the
  last one opens and writes one file, with its own buffer, so that the files at the end
  are those at the start with that one file holding the buffer. The file is written in
  the folder of the last invocation's own path and its file name is the name every node
  refers to. The shared file name is empty at the end. When the last invocation's model
  path is a folder, a separator and a file name with an extension, every node whose model
  is in that folder resolves, by the loader's join, to the file written.
\<close>

theorem sharing_session:
  assumes "run_session (pre @ [final]) w0 = (rs, w')"
    and "SharedCtxBinFileName w0 = []"
    and "\<forall>c \<in> set (pre @ [final]). call_share c \<and> \<not> call_embed c \<and> call_fused c \<noteq> []"
    and "\<forall>c \<in> set pre. \<not> call_stop c" and "call_stop final"
    and "\<forall>r \<in> set rs. fst r = OK"
  shows "length rs = Suc (length pre) \<and>
         (\<forall>i \<le> length pre.
            Attributes (first_emitted (call_model ((pre @ [final]) ! i)) (fst (snd (rs ! i))))
                EP_CACHE_CONTEXT
              = Some (AttrString (call_name (hd (pre @ [final])))) \<and>
            snd (snd (rs ! i)) =
              (if i = length pre
               then [FsOpenWrite (session_bin_path pre final),
                     FsWrite (session_bin_path pre final) (call_buffer final)]
               else [])) \<and>
         files w' = (files w0)(session_bin_path pre final \<mapsto> written_file (call_buffer final)) \<and>
         filename (session_bin_path pre final) = call_name (hd (pre @ [final])) \<and>
         SharedCtxBinFileName w' = [] \<and>
         (\<forall>d bf. call_path final = d @ ''/'' @ bf \<and> CHR ''/'' \<notin> set bf \<and> CHR ''.'' \<in> set bf \<and>
                 d \<noteq> [] \<and> last d \<noteq> CHR ''/'' \<and>
                 CHR ''/'' \<notin> set (graph_name_in_file (Name (fused_node (hd (call_fused final)))))
            \<longrightarrow> (\<forall>c \<in> set (pre @ [final]). \<forall>base.
                    call_path c = d @ ''/'' @ base \<and> CHR ''/'' \<notin> set base \<longrightarrow>
                    path_append (parent_path (call_path c)) (call_name (hd (pre @ [final])))
                      = session_bin_path pre final))"
proof -
  obtain r1 w1 where pre: "run_session pre w0 = (r1, w1)"
    by (cases "run_session pre w0")
  obtain st g1 w2 where fin: "invoke final w1 = (st, g1, w2)"
    by (cases "invoke final w1")
  have "run_session [final] w1 = ([(st, g1, new_events w1 w2)], w2)"
    using fin by simp
  then have "run_session (pre @ [final]) w0 = (r1 @ [(st, g1, new_events w1 w2)], w2)"
    using pre by (simp only: run_session_append prod.case)
  with assms(1) have rs: "rs = r1 @ [(st, g1, new_events w1 w2)]" and w': "w' = w2"
    by auto
  from assms(6) rs have ok1: "\<forall>r \<in> set r1. fst r = OK" and st: "st = OK" by auto
  from assms(3,4) have pc: "\<forall>c \<in> set pre. call_share c \<and> \<not> call_embed c \<and> call_fused c \<noteq> [] \<and> \<not> call_stop c"
    and fc: "call_share final" "\<not> call_embed final" "call_fused final \<noteq> []"
    by auto
  define N where "N = call_name (hd (pre @ [final]))"
  define P where "P = session_bin_path pre final"
  have Nne: "N \<noteq> []" unfolding N_def by (rule call_name_nonempty)
  have Npre: "pre \<noteq> [] \<Longrightarrow> N = (if SharedCtxBinFileName w0 = [] then call_name (hd pre) else SharedCtxBinFileName w0)"
    using assms(2) by (simp add: N_def)
  note i = invoke_shared[OF fin[unfolded st] fc]
  note fi = invoke_shared_files[OF fin[unfolded st] fc]
  have L: "length r1 = length pre \<and>
         (\<forall>i < length pre.
            Attributes (first_emitted (call_model (pre ! i)) (fst (snd (r1 ! i)))) EP_CACHE_CONTEXT
              = Some (AttrString N) \<and>
            snd (snd (r1 ! i)) = []) \<and>
         SharedCtxBinFileName w1 = (if pre = [] then [] else N)"
  proof (cases "pre = []")
    case True
    with pre assms(2) show ?thesis by simp
  next
    case False
    from session_nonfinal[OF pre pc ok1 Npre[OF False]] assms(2) False show ?thesis by simp
  qed
  have f1: "files w1 = files w0" by (rule session_nonfinal_files[OF pre pc ok1])
  have finN: "(if SharedCtxBinFileName w1 = [] then call_name final else SharedCtxBinFileName w1) = N"
    using L Nne by (cases "pre = []") (simp_all add: N_def)
  have binP: "ctx_bin_path True (call_path final) (Name (fused_node (hd (call_fused final)))) w1 = P"
  proof (cases "pre = []")
    case True
    with L show ?thesis
      by (simp add: ctx_bin_path_eq P_def session_bin_path_def call_bin_path_def)
  next
    case False
    with L Nne show ?thesis
      by (simp add: ctx_bin_path_eq P_def session_bin_path_def call_bin_path_def N_def)
  qed
  have len: "length rs = Suc (length pre)" using L rs by simp
  have each: "\<forall>i \<le> length pre.
            Attributes (first_emitted (call_model ((pre @ [final]) ! i)) (fst (snd (rs ! i))))
                EP_CACHE_CONTEXT
              = Some (AttrString N) \<and>
            snd (snd (rs ! i)) =
              (if i = length pre then [FsOpenWrite P, FsWrite P (call_buffer final)] else [])"
  proof (intro allI impI)
    fix i assume "i \<le> length pre"
    show "Attributes (first_emitted (call_model ((pre @ [final]) ! i)) (fst (snd (rs ! i))))
                EP_CACHE_CONTEXT
              = Some (AttrString N) \<and>
            snd (snd (rs ! i)) =
              (if i = length pre then [FsOpenWrite P, FsWrite P (call_buffer final)] else [])"
    proof (cases "i < length pre")
      case True
      with L rs show ?thesis by (simp add: nth_append)
    next
      case False
      with \<open>i \<le> length pre\<close> have ie: "i = length pre" by simp
      have "rs ! i = (st, g1, new_events w1 w2)" using rs L ie by (simp add: nth_append)
      moreover have "(pre @ [final]) ! i = final" using ie by (simp add: nth_append)
      ultimately show ?thesis using i(1,3) assms(5) finN ie binP by simp
    qed
  qed
  have fl: "files w' = (files w0)(P \<mapsto> written_file (call_buffer final))"
    using fi assms(5) binP f1 w' by simp
  have nsN: "CHR ''/'' \<notin> set N" unfolding N_def call_name_def by (rule filename_no_sep)
  have fnP: "filename P = N"
  proof (cases "pre = []")
    case True
    then show ?thesis by (simp add: P_def N_def session_bin_path_def call_name_def call_bin_path_def)
  next
    case False
    then have "P = parent_path (call_bin_path final) @ ''/'' @ N"
      by (simp add: P_def N_def session_bin_path_def)
    then show ?thesis using filename_dir[OF nsN] by simp
  qed
  have sh: "SharedCtxBinFileName w' = []" using i(2) assms(5) w' by simp
  have naN: "\<not> is_absolute N" using nsN Nne by (cases N) (auto simp: is_absolute_def)
  have folder: "path_append (parent_path (call_path c)) N = P"
    if sh: "call_path final = d @ ''/'' @ bf" "CHR ''/'' \<notin> set bf" "CHR ''.'' \<in> set bf"
           "d \<noteq> []" "last d \<noteq> CHR ''/''"
           "CHR ''/'' \<notin> set (graph_name_in_file (Name (fused_node (hd (call_fused final)))))"
      and c: "call_path c = d @ ''/'' @ base" "CHR ''/'' \<notin> set base"
    for d bf c base
  proof -
    note m = model_folder_leads_to_file[OF sh]
    have pf: "parent_path (call_path final) = d"
      unfolding sh(1) by (rule parent_path_dir[OF sh(2,4,5)])
    have pc: "parent_path (call_path c) = d"
      unfolding c(1) by (rule parent_path_dir[OF c(2) sh(4,5)])
    have join: "path_append d N = d @ ''/'' @ N"
      using naN sh(4,5) by (simp add: path_append_def)
    show ?thesis
    proof (cases "pre = []")
      case True
      then have "P = call_bin_path final" "N = filename (call_bin_path final)"
        by (simp_all add: P_def N_def session_bin_path_def call_name_def call_bin_path_def)
      with m(1) pf pc show ?thesis by (simp add: call_bin_path_def)
    next
      case False
      then have "P = parent_path (call_bin_path final) @ ''/'' @ N"
        by (simp add: P_def N_def session_bin_path_def)
      with m(3) pf pc join show ?thesis by (simp add: call_bin_path_def)
    qed
  qed
  show ?thesis
    unfolding N_def[symmetric] P_def[symmetric]
    using len each fl fnP sh folder by blast
qed

theorem sharing_session_witness:
  "SharedCtxBinFileName world0 = []
   \<and> map fst (fst session3) = [OK, OK, OK]
   \<and> length (fst session3) = 3
   \<and> map (\<lambda>r. attr_of EP_CACHE_CONTEXT (first_emitted graph0 (fst (snd r)))) (fst session3)
       = [Some (AttrString ''a_0.bin''), Some (AttrString ''a_0.bin''),
          Some (AttrString ''a_0.bin'')]
   \<and> map (\<lambda>r. snd (snd r)) (fst session3)
       = [[], [], [FsOpenWrite ''dir/a_0.bin'', FsWrite ''dir/a_0.bin'' ''blob'']]
   \<and> files (snd session3) = (files world0)(''dir/a_0.bin'' \<mapsto> written_file ''blob'')
   \<and> filename ''dir/a_0.bin'' = ''a_0.bin''
   \<and> path_append (parent_path ''dir/b.onnx'') ''a_0.bin'' = ''dir/a_0.bin''
   \<and> SharedCtxBinFileName (snd session3) = []"
proof -
  let ?pre = "[session_call ''dir/a.onnx'' False, session_call ''dir/b.onnx'' False]"
  let ?final = "session_call ''dir/c.onnx'' True"
  have r: "run_session (?pre @ [?final]) world0 = (fst session3, snd session3)"
    by (simp only: session3_def prod.collapse)
  have s0: "SharedCtxBinFileName world0 = []" by (simp add: world0_def)
  have calls: "\<forall>c \<in> set (?pre @ [?final]). call_share c \<and> \<not> call_embed c \<and> call_fused c \<noteq> []"
    by (simp add: session_call_def)
  have nostop: "\<forall>c \<in> set ?pre. \<not> call_stop c" by (simp add: session_call_def)
  have stop: "call_stop ?final" by (simp add: session_call_def)
  have oks: "map fst (fst session3) = [OK, OK, OK]" by code_simp
  have "list_all (\<lambda>r. fst r = OK) (fst session3)" by code_simp
  then have ok: "\<forall>r \<in> set (fst session3). fst r = OK"
    by (simp only: list_all_iff)
  have names: "map (\<lambda>r. attr_of EP_CACHE_CONTEXT (first_emitted graph0 (fst (snd r)))) (fst session3)
       = [Some (AttrString ''a_0.bin''), Some (AttrString ''a_0.bin''),
          Some (AttrString ''a_0.bin'')]" by code_simp
  have evs: "map (\<lambda>r. snd (snd r)) (fst session3)
       = [[], [], [FsOpenWrite ''dir/a_0.bin'', FsWrite ''dir/a_0.bin'' ''blob'']]" by code_simp
  have P: "session_bin_path ?pre ?final = ''dir/a_0.bin''" by code_simp
  have N: "call_name (hd (?pre @ [?final])) = ''a_0.bin''" by code_simp
  have buf: "call_buffer ?final = ''blob''" by (simp add: session_call_def)
  have j: "path_append (parent_path ''dir/b.onnx'') ''a_0.bin'' = ''dir/a_0.bin''" by code_simp
  note th = sharing_session[OF r s0 calls nostop stop ok]
  from th have "length (fst session3) = Suc (length ?pre)" by blast
  moreover from th have "SharedCtxBinFileName (snd session3) = []" by blast
  moreover from th have "files (snd session3) =
      (files world0)(session_bin_path ?pre ?final \<mapsto> written_file (call_buffer ?final))"
    by blast
  moreover from th have "filename (session_bin_path ?pre ?final) = call_name (hd (?pre @ [?final]))"
    by blast
  ultimately show ?thesis using s0 oks names evs j
    by (simp only: P N buf) simp
qed

text \<open>
  The path of the write is put together with a separator before the recorded name (line
  266) also when the folder of the model path is empty: in a session whose model paths
  have no folder the final invocation opens the file at the root.
\<close>

lemma folderless_session_writes_at_root:
  "map fst (fst session_folderless) = [OK, OK]
   \<and> map (\<lambda>r. attr_of EP_CACHE_CONTEXT (first_emitted graph0 (fst (snd r)))) (fst session_folderless)
       = [Some (AttrString ''a_0.bin''), Some (AttrString ''a_0.bin'')]
   \<and> map (\<lambda>r. snd (snd r)) (fst session_folderless)
       = [[], [FsOpenWrite ''/a_0.bin'', FsWrite ''/a_0.bin'' ''blob'']]"
  by code_simp

section \<open>Embed mode\<close>

text \<open>
  C9. Loading a context node whose \<open>embed_mode\<close> is true returns what the backend
  returns on the node's inline payload, and adds the backend call and nothing else to
  the trace. An invocation of the writer in embed mode leaves the world as it was: no
  file, no shared file name and no entry of the trace changes.
\<close>

theorem embed_mode_no_filesystem:
  "(EPCONTEXT_OP = OpType n \<and> Get_bool n EMBED_MODE True \<longrightarrow>
      GetEpContextFromMainNode be n ctx_onnx_model_path max_spill_fill_size w =
        (be (Get_string n EP_CACHE_CONTEXT []) (length (Get_string n EP_CACHE_CONTEXT []))
            (Name n) max_spill_fill_size,
         w\<lparr>trace := trace w @
              [BackendLoad (Get_string n EP_CACHE_CONTEXT [])
                 (length (Get_string n EP_CACHE_CONTEXT [])) (Name n) max_spill_fill_size]\<rparr>)
      \<and> filter is_fs_event
           (new_events w (snd (GetEpContextFromMainNode be n ctx_onnx_model_path
                                 max_spill_fill_size w))) = [])
   \<and> snd (snd (CreateEPContextNodes model buffer sdk fs qnn_models cpath True max_size share stop w)) = w"
proof -
  have "snd (snd (CreateEPContextNodes model buffer sdk fs qnn_models cpath True max_size share stop w)) = w"
    unfolding CreateEPContextNodes_def
    by (metis loop_embed_world prod.collapse)
  then show ?thesis
    by (simp add: GetEpContextFromMainNode_def LoadCachedQnnContextFromBuffer_def log_event_def
          new_events_def Let_def)
qed

theorem embed_mode_no_filesystem_witness:
  "EPCONTEXT_OP = OpType (embedded_node ''blob'')
   \<and> Get_bool (embedded_node ''blob'') EMBED_MODE True
   \<and> GetEpContextFromMainNode backend_ok (embedded_node ''blob'') ''dir/model.onnx'' 0 world0 =
       (backend_ok ''blob'' (length ''blob'') ''ctx'' 0,
        world0\<lparr>trace := trace world0 @ [BackendLoad ''blob'' (length ''blob'') ''ctx'' 0]\<rparr>)
   \<and> filter is_fs_event
        (new_events world0 (snd (GetEpContextFromMainNode backend_ok (embedded_node ''blob'')
                                   ''dir/model.onnx'' 0 world0))) = []
   \<and> snd (snd write_embedded) = world0"
proof -
  have a: "EPCONTEXT_OP = OpType (embedded_node ''blob'')" by code_simp
  have b: "Get_bool (embedded_node ''blob'') EMBED_MODE True" by code_simp
  have c: "Get_string (embedded_node ''blob'') EP_CACHE_CONTEXT [] = ''blob''" by code_simp
  have d: "Name (embedded_node ''blob'') = ''ctx''" by code_simp
  from embed_mode_no_filesystem[of "embedded_node ''blob''" backend_ok "''dir/model.onnx''" 0 world0
         graph0 "''blob''" "''v1''" parts2 qnn_models0 "''dir/model.onnx''" 7 False False]
       a b c d
  show ?thesis by (simp add: write_embedded_def new_events_def)
qed

section \<open>Recognising a context-cache node\<close>

lemma GraphHasEpContextNode_set:
  "GraphHasEpContextNode gv \<longleftrightarrow>
     (\<exists>n \<in> set gv. OpType n = EPCONTEXT_OP \<and>
        GetLowercaseString (Get_string n SOURCE []) \<in> {''qnn'', ''qnnexecutionprovider''})"
  by (induction gv) (auto simp: Let_def)

lemma Get_string_source_cases:
  "GetLowercaseString (Get_string n SOURCE []) \<in> {''qnn'', ''qnnexecutionprovider''} \<longleftrightarrow>
     (\<exists>s. Attributes n SOURCE = Some (AttrString s) \<and>
          GetLowercaseString s \<in> {''qnn'', ''qnnexecutionprovider''})"
  by (auto simp: Get_string_def GetLowercaseString_def split: option.splits attr_value.splits)

text \<open>
  C10. A graph is recognised as a context-cache model exactly when one of its nodes has
  operator type EPContext and a string attribute \<open>source\<close> whose lowercased value is
  \<open>qnn\<close> or \<open>qnnexecutionprovider\<close>. So the spellings \<open>QNN\<close> and
  \<open>QnnExecutionProvider\<close> are recognised, and a node without a source, or with the
  source of another provider, is not.
\<close>

theorem GraphHasEpContextNode_iff:
  "(GraphHasEpContextNode gv \<longleftrightarrow>
      (\<exists>n \<in> set gv. OpType n = EPCONTEXT_OP \<and>
         (\<exists>s. Attributes n SOURCE = Some (AttrString s) \<and>
              GetLowercaseString s \<in> {''qnn'', ''qnnexecutionprovider''})))
   \<and> GetLowercaseString ''QNN'' = ''qnn''
   \<and> GetLowercaseString ''QnnExecutionProvider'' = ''qnnexecutionprovider''
   \<and> \<not> GraphHasEpContextNode [mk_node nm EPCONTEXT_OP Map.empty]
   \<and> \<not> GraphHasEpContextNode [mk_node nm EPCONTEXT_OP [SOURCE \<mapsto> AttrString ''VitisAI'']]"
proof -
  have "GetLowercaseString ''QNN'' = ''qnn''"
    by (simp add: GetLowercaseString_def tolower_def)
  moreover have "GetLowercaseString ''QnnExecutionProvider'' = ''qnnexecutionprovider''"
    by (simp add: GetLowercaseString_def tolower_def)
  moreover have "\<not> GraphHasEpContextNode [mk_node nm EPCONTEXT_OP Map.empty]"
    by (simp add: mk_node_def Get_string_def GetLowercaseString_def)
  moreover have
    "\<not> GraphHasEpContextNode [mk_node nm EPCONTEXT_OP [SOURCE \<mapsto> AttrString ''VitisAI'']]"
    by (simp add: mk_node_def Get_string_def GetLowercaseString_def tolower_def)
  ultimately show ?thesis
    unfolding GraphHasEpContextNode_set Get_string_source_cases by blast
qed

theorem GraphHasEpContextNode_iff_witness:
  "GraphHasEpContextNode
     [mk_node ''a'' ''Conv'' Map.empty,
      mk_node ''b'' ''EPContext'' [''source'' \<mapsto> AttrString ''QNN'']]
   \<and> (\<exists>n \<in> set [mk_node ''a'' ''Conv'' Map.empty,
                    mk_node ''b'' ''EPContext'' [''source'' \<mapsto> AttrString ''QNN'']].
          OpType n = EPCONTEXT_OP \<and>
          (\<exists>s. Attributes n SOURCE = Some (AttrString s) \<and>
               GetLowercaseString s \<in> {''qnn'', ''qnnexecutionprovider''}))"
proof -
  have run: "GraphHasEpContextNode
     [mk_node ''a'' ''Conv'' Map.empty,
      mk_node ''b'' ''EPContext'' [''source'' \<mapsto> AttrString ''QNN'']]"
    by (simp add: mk_node_def attr_names Get_string_def GetLowercaseString_def tolower_def)
  from run GraphHasEpContextNode_iff
    [of "[mk_node ''a'' ''Conv'' Map.empty,
          mk_node ''b'' ''EPContext'' [''source'' \<mapsto> AttrString ''QNN'']]"]
  show ?thesis by blast
qed

end
